theory Spec2Isabelle
  imports Complex_Main "HOL-Library.Char_ord" "HOL-Library.List_Lexorder" "HOL-Library.Multiset"
begin

section \<open>The BaseContract of the backfeed protocol\<close>

text \<open>
  A shallow embedding of \<^verbatim>\<open>backfeed_protocol/contracts/base.py\<close>. Python floats are
  idealised as real numbers, so the formulas are the exact ones the code writes down and
  rounding is not modelled. Objects of the ORM are identified by their primary key; the
  tables are lists of keys in insertion order together with the row stored under each key.
\<close>

subsection \<open>Exceptions and arithmetic that can raise\<close>

datatype error =
    ValueError string
  | KeyError string
  | Exception string
  | ZeroDivisionError
  | TypeError
  | IndexError

text \<open>True division of a float by the result of an SQL aggregate: the aggregate is
  \<open>None\<close> over no rows (a TypeError), and a zero divisor raises.\<close>

definition py_div :: "real \<Rightarrow> real option \<Rightarrow> error + real" where
  "py_div x y =
     (case y of
        None \<Rightarrow> Inl TypeError
      | Some d \<Rightarrow> if d = 0 then Inl ZeroDivisionError else Inr (x / d))"

text \<open>The float power \<open>x ** y\<close> of Python 2: zero to a negative power and a negative
  base with a fractional exponent raise.\<close>

definition py_pow :: "real \<Rightarrow> real \<Rightarrow> error + real" where
  "py_pow x y =
     (if x = 0 then
        (if y < 0 then Inl ZeroDivisionError else if y = 0 then Inr 1 else Inr 0)
      else if x < 0 then
        (if y = of_int \<lfloor>y\<rfloor> then Inr (x powi \<lfloor>y\<rfloor>)
         else Inl (ValueError ''negative number cannot be raised to a fractional power''))
      else Inr (x powr y))"

text \<open>Truthiness of an optional integer argument: \<open>None\<close> and \<open>0\<close> are falsy.\<close>

fun truthy :: "int option \<Rightarrow> bool" where
  "truthy None = False"
| "truthy (Some i) = (i \<noteq> 0)"

text \<open>The slices \<open>xs[start:]\<close> and \<open>xs[:limit]\<close>: a negative index counts from the end.\<close>

definition slice_from :: "'a list \<Rightarrow> int \<Rightarrow> 'a list" where
  "slice_from xs start =
     (if 0 \<le> start then drop (nat start) xs else drop (length xs - nat (- start)) xs)"

definition slice_to :: "'a list \<Rightarrow> int \<Rightarrow> 'a list" where
  "slice_to xs limit =
     (if 0 \<le> limit then take (nat limit) xs else take (length xs - nat (- limit)) xs)"

subsection \<open>Entities, configuration and the store\<close>

record user =
  tokens :: real
  reputation :: real
  referrer :: "int option"

record contribution =
  c_user :: int
  contribution_type :: string
  token_fund :: real
  max_score :: real
  c_time :: int

record evaluation =
  e_id :: int
  e_user :: int
  e_contribution :: int
  e_value :: int

record type_config =
  fee :: real
  distribution_stake :: real
  reputation_reward_factor :: real
  reward_threshold :: real
  stake :: real
  token_reward_factor :: real
  evaluation_set :: "int list"

record contract =
  USER_INITIAL_TOKENS :: real
  USER_INITIAL_REPUTATION :: real
  ALPHA :: real
  BETA :: real
  REFERRAL_REWARD_FRACTION :: real
  REFERRAL_TIMEFRAME :: int
  REWARD_TOKENS_TO_EVALUATORS :: bool
  CONTRIBUTION_TYPE :: "(string \<times> type_config) list"

definition BaseContract :: contract where
  "BaseContract =
     \<lparr> USER_INITIAL_TOKENS = 50,
       USER_INITIAL_REPUTATION = 20,
       ALPHA = 7 / 10,
       BETA = 1 / 2,
       REFERRAL_REWARD_FRACTION = 2 / 10,
       REFERRAL_TIMEFRAME = 30,
       REWARD_TOKENS_TO_EVALUATORS = False,
       CONTRIBUTION_TYPE =
         [(''base'',
           \<lparr> fee = 1,
             distribution_stake = 8 / 100,
             reputation_reward_factor = 5,
             reward_threshold = 1 / 2,
             stake = 2 / 100,
             token_reward_factor = 50,
             evaluation_set = [0, 1] \<rparr>)] \<rparr>"

text \<open>The database session. Times are microseconds; \<open>now\<close> is what
  \<^verbatim>\<open>datetime.now()\<close> reads.\<close>

record state =
  user_ids :: "int list"
  user_row :: "int \<Rightarrow> user"
  contribution_ids :: "int list"
  contribution_row :: "int \<Rightarrow> contribution"
  evaluations :: "evaluation list"
  now :: int

text \<open>Modelled from the spec: the repository's \<open>insert\<close> and \<open>delete\<close> and the
  constructors of \<^verbatim>\<open>User\<close>, \<^verbatim>\<open>Contribution\<close> and \<^verbatim>\<open>Evaluation\<close>
  (package \<^verbatim>\<open>models\<close>), which are effective immediately for later reads of the same unit
  of work. A new row takes the next key after the largest one in its table; a
  contribution starts with \<open>max_score = 0\<close> and the current time.\<close>

definition new_id :: "int list \<Rightarrow> int" where
  "new_id ids = fold max ids 0 + 1"

definition new_User :: "state \<Rightarrow> real \<Rightarrow> real \<Rightarrow> int option \<Rightarrow> int \<times> state" where
  "new_User s rep tok ref =
     (let uid = new_id (user_ids s)
      in (uid, s\<lparr> user_ids := user_ids s @ [uid],
                  user_row := (user_row s)(uid := \<lparr> tokens = tok, reputation = rep, referrer = ref \<rparr>) \<rparr>))"

definition new_Contribution :: "state \<Rightarrow> int \<Rightarrow> string \<Rightarrow> real \<Rightarrow> int \<times> state" where
  "new_Contribution s u t fund =
     (let cid = new_id (contribution_ids s)
      in (cid, s\<lparr> contribution_ids := contribution_ids s @ [cid],
                  contribution_row := (contribution_row s)
                    (cid := \<lparr> c_user = u, contribution_type = t, token_fund = fund,
                              max_score = 0, c_time = now s \<rparr>) \<rparr>))"

definition new_Evaluation :: "state \<Rightarrow> int \<Rightarrow> int \<Rightarrow> int \<Rightarrow> evaluation \<times> state" where
  "new_Evaluation s u c v =
     (let e = \<lparr> e_id = new_id (map e_id (evaluations s)), e_user = u, e_contribution = c,
                e_value = v \<rparr>
      in (e, s\<lparr> evaluations := evaluations s @ [e] \<rparr>))"

definition DBSession_delete :: "evaluation \<Rightarrow> state \<Rightarrow> state" where
  "DBSession_delete e s = s\<lparr> evaluations := filter (\<lambda>x. e_id x \<noteq> e_id e) (evaluations s) \<rparr>"

text \<open>Attribute updates on the objects of the session.\<close>

definition set_reputation :: "int \<Rightarrow> real \<Rightarrow> state \<Rightarrow> state" where
  "set_reputation u r s = s\<lparr> user_row := (user_row s)(u := (user_row s u)\<lparr> reputation := r \<rparr>) \<rparr>"

definition set_tokens :: "int \<Rightarrow> real \<Rightarrow> state \<Rightarrow> state" where
  "set_tokens u t s = s\<lparr> user_row := (user_row s)(u := (user_row s u)\<lparr> tokens := t \<rparr>) \<rparr>"

definition set_token_fund :: "int \<Rightarrow> real \<Rightarrow> state \<Rightarrow> state" where
  "set_token_fund c f s =
     s\<lparr> contribution_row := (contribution_row s)(c := (contribution_row s c)\<lparr> token_fund := f \<rparr>) \<rparr>"

definition set_max_score :: "int \<Rightarrow> real \<Rightarrow> state \<Rightarrow> state" where
  "set_max_score c m s =
     s\<lparr> contribution_row := (contribution_row s)(c := (contribution_row s c)\<lparr> max_score := m \<rparr>) \<rparr>"

abbreviation rep_of :: "state \<Rightarrow> int \<Rightarrow> real" where
  "rep_of s u \<equiv> reputation (user_row s u)"

abbreviation tok_of :: "state \<Rightarrow> int \<Rightarrow> real" where
  "tok_of s u \<equiv> tokens (user_row s u)"

subsection \<open>Queries\<close>

text \<open>\<^verbatim>\<open>DBSession.query(User).get(user_id)\<close>: the object under that key, or \<open>None\<close>.\<close>

definition get_user :: "state \<Rightarrow> int \<Rightarrow> int option" where
  "get_user s user_id = (if user_id \<in> set (user_ids s) then Some user_id else None)"

text \<open>\<^verbatim>\<open>func.sum(User.reputation)\<close> over the user table: \<open>None\<close> when it has no row.\<close>

definition total_reputation :: "state \<Rightarrow> real option" where
  "total_reputation s =
     (if user_ids s = [] then None else Some (sum_list (map (rep_of s) (user_ids s))))"

definition get_evaluations :: "state \<Rightarrow> int option \<Rightarrow> int option \<Rightarrow> int option \<Rightarrow> evaluation list" where
  "get_evaluations s contribution_id evaluator_id val =
     (let qry = evaluations s;
          qry = (if truthy contribution_id
                 then filter (\<lambda>e. e_contribution e = the contribution_id) qry else qry);
          qry = (if truthy evaluator_id
                 then filter (\<lambda>e. e_user e = the evaluator_id) qry else qry);
          qry = (if val \<noteq> None then filter (\<lambda>e. e_value e = the val) qry else qry)
      in qry)"

text \<open>The relationship \<^verbatim>\<open>contribution.evaluations\<close>, in insertion order.\<close>

definition contribution_evaluations :: "state \<Rightarrow> int \<Rightarrow> evaluation list" where
  "contribution_evaluations s c = filter (\<lambda>e. e_contribution e = c) (evaluations s)"

text \<open>Modelled from the spec: \<^verbatim>\<open>Contribution.engaged_reputation\<close> (package
  \<^verbatim>\<open>models\<close>), the sum of the reputations of all users with an active evaluation on
  the contribution.\<close>

definition engaged_reputation :: "state \<Rightarrow> int \<Rightarrow> real" where
  "engaged_reputation s c =
     sum_list (map (rep_of s) (remdups (map e_user (contribution_evaluations s c))))"

text \<open>The aggregate joins users with their evaluations, so a user counts once for each
  matching evaluation row, and the sum is \<open>None\<close> when no row matches.\<close>

definition sum_equally_voted_reputation :: "state \<Rightarrow> evaluation \<Rightarrow> error + real" where
  "sum_equally_voted_reputation s evaluation =
     (let rows = filter (\<lambda>e. e_contribution e = e_contribution evaluation
                            \<and> e_value e = e_value evaluation
                            \<and> e_user e \<in> set (user_ids s)) (evaluations s)
      in if rows = [] then Inl TypeError
         else Inr (sum_list (map (\<lambda>e. rep_of s (e_user e)) rows) - rep_of s (e_user evaluation)))"

definition contribution_upvotes :: "state \<Rightarrow> int \<Rightarrow> error + real" where
  "contribution_upvotes s c =
     py_div (sum_list (map (\<lambda>e. rep_of s (e_user e))
               (filter (\<lambda>e. e_value e = 1) (contribution_evaluations s c))))
            (total_reputation s)"

definition contribution_score :: "state \<Rightarrow> int \<Rightarrow> error + real" where
  "contribution_score s c =
     (case contribution_upvotes s c of
        Inl err \<Rightarrow> Inl err
      | Inr upvotes \<Rightarrow>
          (case py_div (sum_list (map (\<lambda>e. rep_of s (e_user e))
                          (filter (\<lambda>e. e_value e = 0) (contribution_evaluations s c))))
                       (total_reputation s) of
             Inl err \<Rightarrow> Inl err
           | Inr downvotes \<Rightarrow>
               (let days = (now s - c_time (contribution_row s c)) div 86400000000
                in case py_div 27 (Some (real_of_int (30 + days))) of
                     Inl err \<Rightarrow> Inl err
                   | Inr decay \<Rightarrow> Inr ((1 - downvotes) * upvotes * (1 / 10 + decay)))))"

text \<open>The sort keys are computed for every element before the list is sorted; the first
  key that raises ends the call.\<close>

fun sort_keys :: "state \<Rightarrow> int list \<Rightarrow> error + (real \<times> int) list" where
  "sort_keys s [] = Inr []"
| "sort_keys s (c # cs) =
     (case contribution_score s c of
        Inl err \<Rightarrow> Inl err
      | Inr k \<Rightarrow> (case sort_keys s cs of Inl err \<Rightarrow> Inl err | Inr ks \<Rightarrow> Inr ((k, c) # ks)))"

text \<open>Python's sort is stable, also with \<^verbatim>\<open>reverse=True\<close>; the database's
  \<^verbatim>\<open>order_by\<close> is taken to keep insertion order among equal times.\<close>

definition get_contributions ::
  "state \<Rightarrow> int \<Rightarrow> int option \<Rightarrow> int option \<Rightarrow> string \<Rightarrow> error + int list" where
  "get_contributions s start limit contributor_id order_by =
     (case (if order_by = ''score'' then
              (case sort_keys s (contribution_ids s) of
                 Inl err \<Rightarrow> Inl err
               | Inr ks \<Rightarrow> Inr (map snd (sort_key fst ks)))
            else if order_by = ''-score'' then
              (case sort_keys s (contribution_ids s) of
                 Inl err \<Rightarrow> Inl err
               | Inr ks \<Rightarrow> Inr (map snd (sort_key (\<lambda>p. - fst p) ks)))
            else if order_by = ''time'' then
              Inr (sort_key (\<lambda>c. c_time (contribution_row s c)) (contribution_ids s))
            else if order_by = ''-time'' then
              Inr (sort_key (\<lambda>c. - c_time (contribution_row s c)) (contribution_ids s))
            else Inl (ValueError ''Unknown order_by value'')) of
        Inl err \<Rightarrow> Inl err
      | Inr results \<Rightarrow>
          (let results = slice_from results start;
               results = (if truthy limit then slice_to results (the limit) else results)
           in Inr results))"

subsection \<open>Creating users and contributions\<close>

text \<open>Every operation returns its outcome together with the store as it is when the
  call returns or raises.\<close>

definition create_user ::
  "contract \<Rightarrow> state \<Rightarrow> real option \<Rightarrow> real option \<Rightarrow> int option \<Rightarrow> int option
     \<Rightarrow> (error + int) \<times> state" where
  "create_user self s tok rep ref referrer_id =
     (let tok' = (case tok of None \<Rightarrow> USER_INITIAL_TOKENS self | Some t \<Rightarrow> t);
          rep' = (case rep of None \<Rightarrow> USER_INITIAL_REPUTATION self | Some r \<Rightarrow> r)
      in if ref = None \<and> truthy referrer_id then
           (case get_user s (the referrer_id) of
              None \<Rightarrow> (Inl (ValueError ''A user with id referrer_id could not be found''), s)
            | Some r \<Rightarrow> (case new_User s rep' tok' (Some r) of (u, s') \<Rightarrow> (Inr u, s')))
         else (case new_User s rep' tok' ref of (u, s') \<Rightarrow> (Inr u, s')))"

definition default_contribution_type :: "contract \<Rightarrow> error + string" where
  "default_contribution_type self =
     (case sort (map fst (CONTRIBUTION_TYPE self)) of
        [] \<Rightarrow> Inl IndexError
      | t # _ \<Rightarrow> Inr t)"

definition create_contribution ::
  "contract \<Rightarrow> state \<Rightarrow> int \<Rightarrow> string option \<Rightarrow> (error + int) \<times> state" where
  "create_contribution self s u ctype =
     (case (if ctype = None \<or> ctype = Some [] then default_contribution_type self
            else Inr (the ctype)) of
        Inl err \<Rightarrow> (Inl err, s)
      | Inr t \<Rightarrow>
          (case map_of (CONTRIBUTION_TYPE self) t of
             None \<Rightarrow> (Inl (KeyError ''contribution_type is not valid''), s)
           | Some cfg \<Rightarrow>
               if tok_of s u < fee cfg
               then (Inl (Exception ''User does not have enough tokens to pay the contribution fee.''), s)
               else (let s1 = set_tokens u (tok_of s u - fee cfg) s
                     in case new_Contribution s1 u t (fee cfg) of (c, s2) \<Rightarrow> (Inr c, s2))))"

subsection \<open>The evaluation lifecycle\<close>

definition is_evaluation_value_allowed :: "contract \<Rightarrow> int \<Rightarrow> string \<Rightarrow> error + bool" where
  "is_evaluation_value_allowed self val ctype =
     (case map_of (CONTRIBUTION_TYPE self) ctype of
        None \<Rightarrow> Inl (KeyError ctype)
      | Some cfg \<Rightarrow> Inr (val \<in> set (evaluation_set cfg)))"

definition reward_evaluator_with_tokens :: "contract \<Rightarrow> state \<Rightarrow> evaluation \<Rightarrow> error + state" where
  "reward_evaluator_with_tokens self s evaluation =
     (let c = e_contribution evaluation;
          u = e_user evaluation;
          evaluator_rep = rep_of s u;
          engaged_rep = engaged_reputation s c - evaluator_rep
      in case total_reputation s of
           None \<Rightarrow> Inl TypeError
         | Some total_rep \<Rightarrow>
             (let unvoted_rep = total_rep - engaged_rep
              in if unvoted_rep > 0 then
                   (let token_reward = token_fund (contribution_row s c) * (evaluator_rep / unvoted_rep);
                        s1 = set_tokens u (tok_of s u + token_reward) s
                    in Inr (set_token_fund c (token_fund (contribution_row s1 c) - token_reward) s1))
                 else Inr s))"

text \<open>The first assignment to \<^verbatim>\<open>votedRep\<close> is overwritten before it is read.\<close>

definition pay_evaluation_fee :: "contract \<Rightarrow> state \<Rightarrow> evaluation \<Rightarrow> error + state" where
  "pay_evaluation_fee self s evaluation =
     (let u = e_user evaluation;
          c = e_contribution evaluation;
          votedRep = engaged_reputation s c
      in case py_div votedRep (total_reputation s) of
           Inl err \<Rightarrow> Inl err
         | Inr ratio \<Rightarrow>
             (case py_pow ratio (BETA self) of
                Inl err \<Rightarrow> Inl err
              | Inr p \<Rightarrow>
                  (let stakeFee = rep_of s u * (1 - p)
                   in case map_of (CONTRIBUTION_TYPE self) (contribution_type (contribution_row s c)) of
                        None \<Rightarrow> Inl (KeyError (contribution_type (contribution_row s c)))
                      | Some cfg \<Rightarrow>
                          (let fee = stake cfg * stakeFee
                           in Inr (set_reputation u (rep_of s u - fee) s)))))"

text \<open>The body of the loop over \<^verbatim>\<open>contribution.evaluations\<close> in
  \<^verbatim>\<open>reward_previous_evaluators\<close>, for one evaluation \<open>e\<close>.\<close>

definition reward_one ::
  "contract \<Rightarrow> real \<Rightarrow> real \<Rightarrow> evaluation \<Rightarrow> evaluation \<Rightarrow> state \<Rightarrow> error + state" where
  "reward_one self stake_distribution burn_factor evaluation e s =
     (if e_value e = e_value evaluation \<and> e_user e \<noteq> e_user evaluation then
        (let ctype = contribution_type (contribution_row s (e_contribution evaluation))
         in case map_of (CONTRIBUTION_TYPE self) ctype of
              None \<Rightarrow> Inl (KeyError ctype)
            | Some cfg \<Rightarrow>
                (let new_reputation = rep_of s (e_user e) *
                       (1 + (distribution_stake cfg * stake_distribution * burn_factor));
                     reputation_delta = new_reputation - rep_of s (e_user e);
                     s1 = set_reputation (e_user e) new_reputation s
                 in case referrer (user_row s1 (e_user e)) of
                      None \<Rightarrow> Inr s1
                    | Some r \<Rightarrow>
                        Inr (set_reputation r
                               (rep_of s1 r + reputation_delta * REFERRAL_REWARD_FRACTION self) s1)))
      else Inr s)"

text \<open>The loop can raise after earlier iterations have updated the store, so it
  returns the store as it stands together with the exception, if any.\<close>

fun reward_loop ::
  "contract \<Rightarrow> real \<Rightarrow> real \<Rightarrow> evaluation \<Rightarrow> evaluation list \<Rightarrow> state
     \<Rightarrow> error option \<times> state" where
  "reward_loop self sd bf evaluation [] s = (None, s)"
| "reward_loop self sd bf evaluation (e # es) s =
     (case reward_one self sd bf evaluation e s of
        Inl err \<Rightarrow> (Some err, s)
      | Inr s' \<Rightarrow> reward_loop self sd bf evaluation es s')"

definition reward_previous_evaluators ::
  "contract \<Rightarrow> state \<Rightarrow> evaluation \<Rightarrow> error option \<times> state" where
  "reward_previous_evaluators self s evaluation =
     (let c = e_contribution evaluation
      in case sum_equally_voted_reputation s evaluation of
           Inl err \<Rightarrow> (Some err, s)
         | Inr equallyVotedRep \<Rightarrow>
             if equallyVotedRep \<noteq> 0 then
               (let equallyVotedRep = equallyVotedRep + rep_of s (e_user evaluation)
                in case py_div (rep_of s (e_user evaluation)) (Some equallyVotedRep) of
                     Inl err \<Rightarrow> (Some err, s)
                   | Inr stake_distribution \<Rightarrow>
                       (case py_div equallyVotedRep (total_reputation s) of
                          Inl err \<Rightarrow> (Some err, s)
                        | Inr ratio \<Rightarrow>
                            (case py_pow ratio (ALPHA self) of
                               Inl err \<Rightarrow> (Some err, s)
                             | Inr burn_factor \<Rightarrow>
                                 reward_loop self stake_distribution burn_factor evaluation
                                   (contribution_evaluations s c) s)))
             else (None, s))"

text \<open>\<^verbatim>\<open>reward_contributor\<close>: the score is compared with the high-water mark first; the
  reward, if any, is paid afterwards.\<close>

definition reward_base :: "type_config \<Rightarrow> real \<Rightarrow> real \<Rightarrow> real" where
  "reward_base cfg currentScore m =
     (if m \<ge> reward_threshold cfg then currentScore - m
      else if currentScore > reward_threshold cfg then currentScore
      else 0)"

definition pay_contributor :: "contract \<Rightarrow> type_config \<Rightarrow> int \<Rightarrow> real \<Rightarrow> state \<Rightarrow> state" where
  "pay_contributor self cfg contributor rewardBase s =
     (let token_reward = token_reward_factor cfg * rewardBase;
          reputationReward = reputation_reward_factor cfg * rewardBase;
          s1 = set_tokens contributor (tok_of s contributor + token_reward) s;
          s2 = set_reputation contributor (rep_of s1 contributor + reputationReward) s1
      in case referrer (user_row s2 contributor) of
           None \<Rightarrow> s2
         | Some r \<Rightarrow>
             (let s3 = set_tokens r (tok_of s2 r + token_reward * REFERRAL_REWARD_FRACTION self) s2
              in set_reputation r (rep_of s3 r + reputationReward * REFERRAL_REWARD_FRACTION self) s3))"

definition reward_contributor :: "contract \<Rightarrow> state \<Rightarrow> evaluation \<Rightarrow> error + state" where
  "reward_contributor self s evaluation =
     (if e_value evaluation = 0 then Inr s
      else
        (let c = e_contribution evaluation;
             contributor = c_user (contribution_row s c);
             ctype = contribution_type (contribution_row s c)
         in case contribution_upvotes s c of
              Inl err \<Rightarrow> Inl err
            | Inr currentScore \<Rightarrow>
                (let m = max_score (contribution_row s c)
                 in if currentScore > m then
                      (case map_of (CONTRIBUTION_TYPE self) ctype of
                         None \<Rightarrow> Inl (KeyError ctype)
                       | Some cfg \<Rightarrow>
                           (let rewardBase = reward_base cfg currentScore m;
                                s1 = set_max_score c currentScore s
                            in if rewardBase > 0
                               then Inr (pay_contributor self cfg contributor rewardBase s1)
                               else Inr s1))
                    else Inr s)))"

text \<open>The loop that deletes the previous evaluations of the pair.\<close>

definition delete_all :: "evaluation list \<Rightarrow> state \<Rightarrow> state" where
  "delete_all es s = fold DBSession_delete es s"

definition create_evaluation ::
  "contract \<Rightarrow> state \<Rightarrow> int \<Rightarrow> int \<Rightarrow> int \<Rightarrow> (error + evaluation) \<times> state" where
  "create_evaluation self s u c val =
     (case is_evaluation_value_allowed self val (contribution_type (contribution_row s c)) of
        Inl err \<Rightarrow> (Inl err, s)
      | Inr allowed \<Rightarrow>
          if \<not> allowed then (Inl (ValueError ''Evaluation value is not valid''), s)
          else
            (let previously_voted = (get_evaluations s (Some c) (Some u) None \<noteq> []);
                 s1 = delete_all (get_evaluations s (Some c) (Some u) None) s
             in case new_Evaluation s1 u c val of
                  (evaluation, s2) \<Rightarrow>
                    (case (if REWARD_TOKENS_TO_EVALUATORS self \<and> \<not> previously_voted
                           then reward_evaluator_with_tokens self s2 evaluation else Inr s2) of
                       Inl err \<Rightarrow> (Inl err, s2)
                     | Inr s3 \<Rightarrow>
                         (case pay_evaluation_fee self s3 evaluation of
                            Inl err \<Rightarrow> (Inl err, s3)
                          | Inr s4 \<Rightarrow>
                              (case reward_previous_evaluators self s4 evaluation of
                                 (Some err, s5) \<Rightarrow> (Inl err, s5)
                               | (None, s5) \<Rightarrow>
                                   (case reward_contributor self s5 evaluation of
                                      Inl err \<Rightarrow> (Inl err, s5)
                                    | Inr s6 \<Rightarrow> (Inr evaluation, s6)))))))"

subsection \<open>Example stores\<close>

text \<open>Rows under keys that are in no table; they are never read through a table.\<close>

definition absent_user :: user where
  "absent_user = \<lparr> tokens = 0, reputation = 0, referrer = None \<rparr>"

definition absent_contribution :: contribution where
  "absent_contribution =
     \<lparr> c_user = 0, contribution_type = [], token_fund = 0, max_score = 0, c_time = 0 \<rparr>"

text \<open>User 1 has paid the fee of contribution 1; user 3 was referred by user 2.\<close>

definition example_store :: state where
  "example_store =
     \<lparr> user_ids = [1, 2, 3],
       user_row = (\<lambda>_. absent_user)
         (1 := \<lparr> tokens = 49, reputation = 20, referrer = None \<rparr>,
          2 := \<lparr> tokens = 50, reputation = 10, referrer = None \<rparr>,
          3 := \<lparr> tokens = 50, reputation = 10, referrer = Some 2 \<rparr>),
       contribution_ids = [1],
       contribution_row = (\<lambda>_. absent_contribution)
         (1 := \<lparr> c_user = 1, contribution_type = ''base'', token_fund = 1, max_score = 0,
                  c_time = 0 \<rparr>),
       evaluations = [],
       now = 0 \<rparr>"

definition base_config :: type_config where
  "base_config =
     \<lparr> fee = 1, distribution_stake = 8 / 100, reputation_reward_factor = 5,
       reward_threshold = 1 / 2, stake = 2 / 100, token_reward_factor = 50,
       evaluation_set = [0, 1] \<rparr>"

text \<open>The example store with user 2 short of the fee of the base type.\<close>

definition poor_store :: state where
  "poor_store = example_store\<lparr> user_row := (user_row example_store)
      (2 := \<lparr> tokens = 1 / 2, reputation = 20, referrer = None \<rparr>) \<rparr>"

text \<open>The example store after user 2 has voted 0 on contribution 1.\<close>

definition voted_store :: state where
  "voted_store =
     example_store\<lparr> evaluations := [\<lparr> e_id = 1, e_user = 2, e_contribution = 1, e_value = 0 \<rparr>] \<rparr>"

text \<open>The store before any user is created.\<close>

definition empty_store :: state where
  "empty_store =
     \<lparr> user_ids = [], user_row = (\<lambda>_. absent_user), contribution_ids = [],
       contribution_row = (\<lambda>_. absent_contribution), evaluations = [], now = 0 \<rparr>"





subsection \<open>Notions used to state the properties\<close>

text \<open>What no step after the insertion of the evaluation changes.\<close>

definition same_tables :: "state \<Rightarrow> state \<Rightarrow> bool" where
  "same_tables s s' \<longleftrightarrow>
     user_ids s' = user_ids s \<and> contribution_ids s' = contribution_ids s
     \<and> evaluations s' = evaluations s \<and> now s' = now s
     \<and> (\<forall>x. referrer (user_row s' x) = referrer (user_row s x))
     \<and> (\<forall>x. c_user (contribution_row s' x) = c_user (contribution_row s x))
     \<and> (\<forall>x. contribution_type (contribution_row s' x) = contribution_type (contribution_row s x))
     \<and> (\<forall>x. c_time (contribution_row s' x) = c_time (contribution_row s x))"

text \<open>The store after the previous evaluations are deleted and the new one is created.\<close>

definition replaced :: "state \<Rightarrow> int \<Rightarrow> int \<Rightarrow> int \<Rightarrow> evaluation \<times> state" where
  "replaced s u c v = new_Evaluation (delete_all (get_evaluations s (Some c) (Some u) None) s) u c v"

text \<open>At most one evaluation for each pair of a user and a contribution.\<close>

definition one_evaluation_per_pair :: "state \<Rightarrow> bool" where
  "one_evaluation_per_pair s =
     distinct (map (\<lambda>e. (e_user e, e_contribution e)) (evaluations s))"

fun evaluation_events :: "contract \<Rightarrow> state \<Rightarrow> (int \<times> int \<times> int) list \<Rightarrow> state" where
  "evaluation_events self s [] = s"
| "evaluation_events self s ((u, c, v) # calls) =
     evaluation_events self (snd (create_evaluation self s u c v)) calls"

text \<open>A store on which two votes in a row have square roots that are rational: user 2
  votes 1 on contribution 1 (\<open>skewed_upvoted\<close>), then user 3 votes 0
  (\<open>skewed_downvoted\<close>).\<close>

definition skewed_store :: state where
  "skewed_store =
     \<lparr> user_ids = [1, 2, 3],
       user_row = (\<lambda>_. absent_user)
         (1 := \<lparr> tokens = 49, reputation = 1197, referrer = None \<rparr>,
          2 := \<lparr> tokens = 50, reputation = 400, referrer = None \<rparr>,
          3 := \<lparr> tokens = 50, reputation = 3, referrer = None \<rparr>),
       contribution_ids = [1],
       contribution_row = (\<lambda>_. absent_contribution)
         (1 := \<lparr> c_user = 1, contribution_type = ''base'', token_fund = 1, max_score = 0,
                  c_time = 0 \<rparr>),
       evaluations = [],
       now = 0 \<rparr>"

definition skewed_upvoted :: state where
  "skewed_upvoted =
     skewed_store\<lparr>
       evaluations := [\<lparr> e_id = 1, e_user = 2, e_contribution = 1, e_value = 1 \<rparr>],
       user_row := (user_row skewed_store)
         (2 := \<lparr> tokens = 50, reputation = 396, referrer = None \<rparr>),
       contribution_row := (contribution_row skewed_store)
         (1 := \<lparr> c_user = 1, contribution_type = ''base'', token_fund = 1,
                  max_score = 33 / 133, c_time = 0 \<rparr>) \<rparr>"

definition skewed_downvoted :: state where
  "skewed_downvoted =
     skewed_upvoted\<lparr>
       evaluations := [\<lparr> e_id = 1, e_user = 2, e_contribution = 1, e_value = 1 \<rparr>,
                       \<lparr> e_id = 2, e_user = 3, e_contribution = 1, e_value = 0 \<rparr>],
       user_row := (user_row skewed_upvoted)
         (3 := \<lparr> tokens = 50, reputation = 297 / 100, referrer = None \<rparr>) \<rparr>"

text \<open>Two contributions: user 2 has voted 0 on the first, user 3 has voted 1 on the
  second.\<close>

definition two_contributions_store :: state where
  "two_contributions_store =
     example_store\<lparr>
       contribution_ids := [1, 2],
       contribution_row := (contribution_row example_store)
         (2 := \<lparr> c_user = 2, contribution_type = ''base'', token_fund = 1, max_score = 0,
                  c_time = 0 \<rparr>),
       evaluations := [\<lparr> e_id = 1, e_user = 2, e_contribution = 1, e_value = 0 \<rparr>,
                       \<lparr> e_id = 2, e_user = 3, e_contribution = 2, e_value = 1 \<rparr>] \<rparr>"

text \<open>The score of a contribution when \<open>contribution_score\<close> returns, and the stores
  on which it returns for every contribution: the total reputation is not zero and no
  contribution is dated thirty days into the future.\<close>

definition score_of :: "state \<Rightarrow> int \<Rightarrow> real" where
  "score_of s c = (case contribution_score s c of Inl err \<Rightarrow> 0 | Inr k \<Rightarrow> k)"

definition scores_defined :: "state \<Rightarrow> bool" where
  "scores_defined s \<longleftrightarrow>
     total_reputation s \<noteq> None \<and> total_reputation s \<noteq> Some 0
     \<and> list_all (\<lambda>c. (now s - c_time (contribution_row s c)) div 86400000000 \<noteq> - 30)
          (contribution_ids s)"


section \<open>Properties\<close>

subsection \<open>Which exceptions the steps of an evaluation can raise\<close>

lemma py_div_error: "py_div x y = Inl err \<Longrightarrow> err = TypeError \<or> err = ZeroDivisionError"
  by (auto simp: py_div_def split: option.splits if_splits)

lemma py_pow_error:
  "py_pow x y = Inl err \<Longrightarrow>
     err = ZeroDivisionError
     \<or> err = ValueError ''negative number cannot be raised to a fractional power''"
  by (auto simp: py_pow_def split: if_splits)

lemma pay_evaluation_fee_error:
  "pay_evaluation_fee self s e = Inl err \<Longrightarrow> err \<noteq> ValueError ''Evaluation value is not valid''"
  by (auto simp: pay_evaluation_fee_def Let_def split: sum.splits option.splits
      dest!: py_div_error py_pow_error)

lemma reward_evaluator_with_tokens_error:
  "reward_evaluator_with_tokens self s e = Inl err \<Longrightarrow> err = TypeError"
  by (auto simp: reward_evaluator_with_tokens_def Let_def split: option.splits if_splits)

lemma reward_one_error:
  "reward_one self sd bf ev e s = Inl err \<Longrightarrow> \<exists>k. err = KeyError k"
  by (auto simp: reward_one_def Let_def split: option.splits if_splits)

lemma reward_loop_error:
  "reward_loop self sd bf ev es s = (Some err, s') \<Longrightarrow> \<exists>k. err = KeyError k"
  by (induction es arbitrary: s) (auto split: sum.splits dest: reward_one_error)

lemma sum_equally_voted_reputation_error:
  "sum_equally_voted_reputation s e = Inl err \<Longrightarrow> err = TypeError"
  by (auto simp: sum_equally_voted_reputation_def Let_def split: if_splits)

lemma reward_previous_evaluators_error:
  "reward_previous_evaluators self s e = (Some err, s') \<Longrightarrow>
     err \<noteq> ValueError ''Evaluation value is not valid''"
  by (auto simp: reward_previous_evaluators_def Let_def split: sum.splits if_splits
      dest!: py_div_error py_pow_error sum_equally_voted_reputation_error reward_loop_error)

lemma contribution_upvotes_error:
  "contribution_upvotes s c = Inl err \<Longrightarrow> err = TypeError \<or> err = ZeroDivisionError"
  by (auto simp: contribution_upvotes_def dest: py_div_error)

lemma reward_contributor_error:
  "reward_contributor self s e = Inl err \<Longrightarrow> err \<noteq> ValueError ''Evaluation value is not valid''"
  by (auto simp: reward_contributor_def Let_def split: sum.splits if_splits option.splits
      dest!: contribution_upvotes_error)

subsection \<open>Validation of the evaluation value\<close>

text \<open>
  Claim C8. For a configured contribution type, \<open>is_evaluation_value_allowed\<close> returns
  whether the value is a member of the type's \<open>evaluation_set\<close>; and
  \<open>create_evaluation\<close> on a contribution of that type raises the ValueError
  ``Evaluation value is not valid'' with the store untouched exactly when the value is
  not in that set.
\<close>

theorem evaluation_value_validation:
  assumes "map_of (CONTRIBUTION_TYPE self) t = Some cfg"
  shows "is_evaluation_value_allowed self v t = Inr (v \<in> set (evaluation_set cfg))
    \<and> (contribution_type (contribution_row s c) = t \<longrightarrow>
         (create_evaluation self s u c v = (Inl (ValueError ''Evaluation value is not valid''), s))
           = (v \<notin> set (evaluation_set cfg)))"
proof (intro conjI impI)
  show a: "is_evaluation_value_allowed self v t = Inr (v \<in> set (evaluation_set cfg))"
    using assms by (simp add: is_evaluation_value_allowed_def)
  assume t: "contribution_type (contribution_row s c) = t"
  show "(create_evaluation self s u c v = (Inl (ValueError ''Evaluation value is not valid''), s))
          = (v \<notin> set (evaluation_set cfg))"
  proof (cases "v \<in> set (evaluation_set cfg)")
    case False
    then show ?thesis using a t by (simp add: create_evaluation_def)
  next
    case True
    have "fst (create_evaluation self s u c v) \<noteq> Inl (ValueError ''Evaluation value is not valid'')"
      using a t True
      by (auto simp: create_evaluation_def Let_def split: sum.splits prod.splits option.splits
          dest: pay_evaluation_fee_error reward_evaluator_with_tokens_error
                reward_previous_evaluators_error reward_contributor_error)
    then show ?thesis using True by auto
  qed
qed

theorem evaluation_value_validation_witness:
  "map_of (CONTRIBUTION_TYPE BaseContract) ''base'' = Some base_config
   \<and> is_evaluation_value_allowed BaseContract 2 ''base'' = Inr False
   \<and> is_evaluation_value_allowed BaseContract 1 ''base'' = Inr True
   \<and> create_evaluation BaseContract example_store 2 1 2
       = (Inl (ValueError ''Evaluation value is not valid''), example_store)
   \<and> create_evaluation BaseContract example_store 2 1 1
       \<noteq> (Inl (ValueError ''Evaluation value is not valid''), example_store)"
proof -
  have cfg: "map_of (CONTRIBUTION_TYPE BaseContract) ''base'' = Some base_config"
    by (simp add: BaseContract_def base_config_def)
  have t: "contribution_type (contribution_row example_store 1) = ''base''"
    by (simp add: example_store_def)
  show ?thesis
    using cfg t
      evaluation_value_validation [OF cfg, of 2 example_store 1 2]
      evaluation_value_validation [OF cfg, of 1 example_store 1 2]
    by (simp add: base_config_def)
qed

subsection \<open>Filters of \<open>get_evaluations\<close>\<close>

text \<open>
  Claim C9. \<open>get_evaluations\<close> tests its \<open>contribution_id\<close> and \<open>evaluator_id\<close>
  arguments for truthiness, so the key 0 behaves as an omitted filter, whereas the value
  filter is only disabled by \<open>None\<close>: the value 0 selects the evaluations with value 0.
\<close>

theorem get_evaluations_truthiness:
  "get_evaluations s (Some 0) ev v = get_evaluations s None ev v
   \<and> get_evaluations s c (Some 0) v = get_evaluations s c None v
   \<and> get_evaluations s c ev (Some 0)
       = filter (\<lambda>e. e_value e = 0) (get_evaluations s c ev None)"
  by (simp add: get_evaluations_def Let_def)

theorem get_evaluations_truthiness_witness:
  "get_evaluations
     (example_store\<lparr> evaluations :=
        [\<lparr> e_id = 1, e_user = 2, e_contribution = 1, e_value = 0 \<rparr>,
         \<lparr> e_id = 2, e_user = 3, e_contribution = 1, e_value = 1 \<rparr>] \<rparr>)
     (Some 0) (Some 0) (Some 0)
   = [\<lparr> e_id = 1, e_user = 2, e_contribution = 1, e_value = 0 \<rparr>]"
  using get_evaluations_truthiness
    [of "example_store\<lparr> evaluations :=
        [\<lparr> e_id = 1, e_user = 2, e_contribution = 1, e_value = 0 \<rparr>,
         \<lparr> e_id = 2, e_user = 3, e_contribution = 1, e_value = 1 \<rparr>] \<rparr>" None "Some 0" "Some 0"]
  by (simp add: get_evaluations_def example_store_def)

subsection \<open>Creating users\<close>

text \<open>
  Claim C10. \<open>create_user\<close> ignores \<open>referrer_id\<close> when a referrer object is
  passed, and ignores a falsy \<open>referrer_id\<close>; it raises exactly when no referrer
  is passed and a truthy \<open>referrer_id\<close> is the key of no user, and then the store is
  unchanged.
\<close>

theorem create_user_referrer_id:
  "create_user self s tok rep (Some r) referrer_id = create_user self s tok rep (Some r) None
   \<and> create_user self s tok rep None (Some 0) = create_user self s tok rep None None
   \<and> isl (fst (create_user self s tok rep ref referrer_id))
       = (ref = None \<and> truthy referrer_id \<and> get_user s (the referrer_id) = None)
   \<and> (isl (fst (create_user self s tok rep ref referrer_id)) \<longrightarrow>
         create_user self s tok rep ref referrer_id
           = (Inl (ValueError ''A user with id referrer_id could not be found''), s))"
  by (auto simp: create_user_def Let_def split: option.splits prod.splits)

theorem create_user_referrer_id_witness:
  "create_user BaseContract example_store None None (Some 2) (Some 7)
     = create_user BaseContract example_store None None (Some 2) None
   \<and> isl (fst (create_user BaseContract example_store None None None (Some 7)))
   \<and> \<not> isl (fst (create_user BaseContract example_store None None (Some 7) (Some 7)))
   \<and> \<not> isl (fst (create_user BaseContract example_store None None None (Some 0)))
   \<and> create_user BaseContract example_store None None None (Some 7)
       = (Inl (ValueError ''A user with id referrer_id could not be found''), example_store)"
  using create_user_referrer_id [of BaseContract example_store None None 2 "Some 7" None]
    create_user_referrer_id [of BaseContract example_store None None 2 "Some 7" "Some 7"]
    create_user_referrer_id [of BaseContract example_store None None 2 "Some 0" None]
  by (simp add: get_user_def example_store_def)

subsection \<open>Creating contributions\<close>

lemma fold_max_ge: "(a::int) \<le> fold max ids a \<and> (\<forall>x\<in>set ids. x \<le> fold max ids a)"
proof (induction ids arbitrary: a)
  case Nil
  then show ?case by simp
next
  case (Cons i ids)
  have "max i a \<le> fold max ids (max i a)" "\<forall>x\<in>set ids. x \<le> fold max ids (max i a)"
    using Cons.IH [of "max i a"] by auto
  then show ?case by auto
qed

lemma new_id_fresh: "new_id ids \<notin> set ids"
proof
  assume "new_id ids \<in> set ids"
  then have "new_id ids \<le> fold max ids 0" using fold_max_ge [of 0 ids] by blast
  then show False by (simp add: new_id_def)
qed

lemma sort_Nil_first:
  assumes "[] \<in> set (ks :: string list)"
  shows "\<exists>rest. sort ks = [] # rest"
proof (cases "sort ks")
  case Nil
  then have "set (sort ks) = {}" by simp
  then show ?thesis using assms by simp
next
  case (Cons k rest)
  have "[] \<in> set (sort ks)" using assms by simp
  moreover have "sorted (k # rest)" using Cons sorted_sort [of ks] by simp
  ultimately have "k \<le> []" using Cons by auto
  then have "k = []" by simp
  then show ?thesis using Cons by simp
qed

lemma default_contribution_type_empty_key:
  assumes "map_of (CONTRIBUTION_TYPE self) [] = Some cfg"
  shows "default_contribution_type self = Inr []"
proof -
  have "[] \<in> set (map fst (CONTRIBUTION_TYPE self))"
    using assms by (metis map_of_eq_None_iff option.distinct(1) set_map)
  then obtain rest where "sort (map fst (CONTRIBUTION_TYPE self)) = [] # rest"
    using sort_Nil_first by blast
  then show ?thesis by (simp add: default_contribution_type_def)
qed

text \<open>
  Claim C5. For a configured contribution type, \<open>create_contribution\<close> raises
  exactly when the user's tokens are less than the type's fee. When it raises, the store
  (hence the user's balance and the table of contributions) is as before; when it
  returns, the user's tokens are lower by the fee and the one new contribution has a
  \<open>token_fund\<close> equal to the fee.
\<close>

theorem create_contribution_fee:
  assumes "map_of (CONTRIBUTION_TYPE self) t = Some cfg"
  shows "isl (fst (create_contribution self s u (Some t))) = (tok_of s u < fee cfg)
    \<and> (tok_of s u < fee cfg \<longrightarrow>
         create_contribution self s u (Some t)
           = (Inl (Exception ''User does not have enough tokens to pay the contribution fee.''), s))
    \<and> (\<not> tok_of s u < fee cfg \<longrightarrow>
         (\<exists>c s'. create_contribution self s u (Some t) = (Inr c, s')
            \<and> tok_of s' u = tok_of s u - fee cfg
            \<and> contribution_ids s' = contribution_ids s @ [c]
            \<and> c \<notin> set (contribution_ids s)
            \<and> c_user (contribution_row s' c) = u
            \<and> contribution_type (contribution_row s' c) = t
            \<and> token_fund (contribution_row s' c) = fee cfg))"
proof -
  have sel: "(if Some t = None \<or> Some t = Some [] then default_contribution_type self
              else Inr (the (Some t))) = Inr t"
    using assms default_contribution_type_empty_key by auto
  show ?thesis
    unfolding create_contribution_def sel
    using assms new_id_fresh [of "contribution_ids s"]
    by (simp add: new_Contribution_def set_tokens_def Let_def)
qed

theorem create_contribution_fee_witness:
  "map_of (CONTRIBUTION_TYPE BaseContract) ''base'' = Some base_config
   \<and> create_contribution BaseContract poor_store 2 (Some ''base'')
       = (Inl (Exception ''User does not have enough tokens to pay the contribution fee.''), poor_store)
   \<and> (\<exists>c s'. create_contribution BaseContract example_store 2 (Some ''base'') = (Inr c, s')
         \<and> tok_of s' 2 = 49 \<and> contribution_ids s' = [1, c] \<and> c \<noteq> 1
         \<and> token_fund (contribution_row s' c) = 1)"
proof -
  have cfg: "map_of (CONTRIBUTION_TYPE BaseContract) ''base'' = Some base_config"
    by (simp add: BaseContract_def base_config_def)
  have p: "tok_of poor_store 2 < fee base_config"
    by (simp add: poor_store_def example_store_def base_config_def)
  have e: "\<not> tok_of example_store 2 < fee base_config" "tok_of example_store 2 - fee base_config = 49"
    "contribution_ids example_store = [1]" "fee base_config = 1"
    by (simp_all add: example_store_def base_config_def)
  have 1: "create_contribution BaseContract poor_store 2 (Some ''base'')
       = (Inl (Exception ''User does not have enough tokens to pay the contribution fee.''), poor_store)"
    using create_contribution_fee [OF cfg, of poor_store 2] p by blast
  obtain c s' where "create_contribution BaseContract example_store 2 (Some ''base'') = (Inr c, s')"
    "tok_of s' 2 = tok_of example_store 2 - fee base_config"
    "contribution_ids s' = contribution_ids example_store @ [c]"
    "c \<notin> set (contribution_ids example_store)"
    "token_fund (contribution_row s' c) = fee base_config"
    using create_contribution_fee [OF cfg, of example_store 2] e(1) by blast
  then have "\<exists>c s'. create_contribution BaseContract example_store 2 (Some ''base'') = (Inr c, s')
         \<and> tok_of s' 2 = 49 \<and> contribution_ids s' = [1, c] \<and> c \<noteq> 1
         \<and> token_fund (contribution_row s' c) = 1"
    using e by auto
  then show ?thesis using cfg 1 by blast
qed

subsection \<open>What the steps of an evaluation leave unchanged\<close>

lemma set_reputation_simps [simp]:
  "user_ids (set_reputation u r s) = user_ids s"
  "contribution_ids (set_reputation u r s) = contribution_ids s"
  "contribution_row (set_reputation u r s) = contribution_row s"
  "evaluations (set_reputation u r s) = evaluations s"
  "now (set_reputation u r s) = now s"
  "rep_of (set_reputation u r s) x = (if x = u then r else rep_of s x)"
  "tok_of (set_reputation u r s) x = tok_of s x"
  "referrer (user_row (set_reputation u r s) x) = referrer (user_row s x)"
  by (simp_all add: set_reputation_def)

lemma set_tokens_simps [simp]:
  "user_ids (set_tokens u t s) = user_ids s"
  "contribution_ids (set_tokens u t s) = contribution_ids s"
  "contribution_row (set_tokens u t s) = contribution_row s"
  "evaluations (set_tokens u t s) = evaluations s"
  "now (set_tokens u t s) = now s"
  "rep_of (set_tokens u t s) x = rep_of s x"
  "tok_of (set_tokens u t s) x = (if x = u then t else tok_of s x)"
  "referrer (user_row (set_tokens u t s) x) = referrer (user_row s x)"
  by (simp_all add: set_tokens_def)

lemma set_token_fund_simps [simp]:
  "user_ids (set_token_fund c f s) = user_ids s"
  "user_row (set_token_fund c f s) = user_row s"
  "contribution_ids (set_token_fund c f s) = contribution_ids s"
  "evaluations (set_token_fund c f s) = evaluations s"
  "now (set_token_fund c f s) = now s"
  "c_user (contribution_row (set_token_fund c f s) x) = c_user (contribution_row s x)"
  "contribution_type (contribution_row (set_token_fund c f s) x) = contribution_type (contribution_row s x)"
  "c_time (contribution_row (set_token_fund c f s) x) = c_time (contribution_row s x)"
  "max_score (contribution_row (set_token_fund c f s) x) = max_score (contribution_row s x)"
  "token_fund (contribution_row (set_token_fund c f s) x) = (if x = c then f else token_fund (contribution_row s x))"
  by (simp_all add: set_token_fund_def)

lemma set_max_score_simps [simp]:
  "user_ids (set_max_score c m s) = user_ids s"
  "user_row (set_max_score c m s) = user_row s"
  "contribution_ids (set_max_score c m s) = contribution_ids s"
  "evaluations (set_max_score c m s) = evaluations s"
  "now (set_max_score c m s) = now s"
  "c_user (contribution_row (set_max_score c m s) x) = c_user (contribution_row s x)"
  "contribution_type (contribution_row (set_max_score c m s) x) = contribution_type (contribution_row s x)"
  "c_time (contribution_row (set_max_score c m s) x) = c_time (contribution_row s x)"
  "token_fund (contribution_row (set_max_score c m s) x) = token_fund (contribution_row s x)"
  "max_score (contribution_row (set_max_score c m s) x) = (if x = c then m else max_score (contribution_row s x))"
  by (simp_all add: set_max_score_def)

lemma same_tables_refl [simp]: "same_tables s s"
  by (simp add: same_tables_def)

lemma same_tables_trans: "same_tables s s' \<Longrightarrow> same_tables s' s'' \<Longrightarrow> same_tables s s''"
  by (simp add: same_tables_def)

lemma same_tables_setters [simp]:
  "same_tables s (set_reputation u r s)"
  "same_tables s (set_tokens u t s)"
  "same_tables s (set_token_fund c f s)"
  "same_tables s (set_max_score c m s)"
  by (simp_all add: same_tables_def)

lemma same_tables_setters_trans [simp]:
  "same_tables s s' \<Longrightarrow> same_tables s (set_reputation u r s')"
  "same_tables s s' \<Longrightarrow> same_tables s (set_tokens u t s')"
  "same_tables s s' \<Longrightarrow> same_tables s (set_token_fund c f s')"
  "same_tables s s' \<Longrightarrow> same_tables s (set_max_score c m s')"
  by (simp_all add: same_tables_def)

lemma reward_evaluator_with_tokens_tables:
  "reward_evaluator_with_tokens self s e = Inr s' \<Longrightarrow> same_tables s s'"
  by (auto simp: reward_evaluator_with_tokens_def Let_def split: option.splits if_splits)

lemma pay_evaluation_fee_tables:
  "pay_evaluation_fee self s e = Inr s' \<Longrightarrow> same_tables s s'"
  by (auto simp: pay_evaluation_fee_def Let_def split: sum.splits option.splits)

lemma reward_one_tables:
  "reward_one self sd bf ev e s = Inr s' \<Longrightarrow> same_tables s s'"
  by (auto simp: reward_one_def Let_def split: option.splits if_splits)

lemma reward_loop_tables:
  "reward_loop self sd bf ev es s = (r, s') \<Longrightarrow> same_tables s s'"
proof (induction es arbitrary: s)
  case Nil
  then show ?case by simp
next
  case (Cons e es)
  then show ?case
    by (auto split: sum.splits dest!: reward_one_tables intro: same_tables_trans)
qed

lemma reward_previous_evaluators_tables:
  "reward_previous_evaluators self s e = (r, s') \<Longrightarrow> same_tables s s'"
  by (auto simp: reward_previous_evaluators_def Let_def split: sum.splits if_splits
      dest: reward_loop_tables)

lemma pay_contributor_tables: "same_tables s (pay_contributor self cfg u b s)"
  by (simp add: pay_contributor_def Let_def split: option.splits)

lemma reward_contributor_tables:
  "reward_contributor self s e = Inr s' \<Longrightarrow> same_tables s s'"
  by (auto simp: reward_contributor_def Let_def split: sum.splits if_splits option.splits
      intro: same_tables_trans [OF _ pay_contributor_tables])

subsection \<open>Evaluating the square root of the fee\<close>

lemma sqrt_quarter: "(1 / 4 :: real) powr (1 / 2) = 1 / 2"
proof -
  have "(1 / 4 :: real) powr (1 / 2) = sqrt (1 / 4)" by (simp add: powr_half_sqrt)
  also have "\<dots> = 1 / 2" by (simp add: real_sqrt_divide)
  finally show ?thesis .
qed

lemma py_pow_quarter: "py_pow (1 / 4) (1 / 2) = Inr (1 / 2)"
  using sqrt_quarter by (simp add: py_pow_def)

lemmas eval_defs = create_evaluation_def is_evaluation_value_allowed_def BaseContract_def
     get_evaluations_def delete_all_def DBSession_delete_def new_Evaluation_def new_id_def pay_evaluation_fee_def
     engaged_reputation_def contribution_evaluations_def total_reputation_def py_div_def
     reward_previous_evaluators_def sum_equally_voted_reputation_def reward_contributor_def
     contribution_upvotes_def reward_base_def reward_one_def pay_contributor_def
     set_reputation_def set_tokens_def set_max_score_def Let_def

subsection \<open>One active evaluation per user and contribution\<close>

lemma delete_all_evaluations:
  "evaluations (delete_all es s) = filter (\<lambda>x. e_id x \<notin> e_id ` set es) (evaluations s)"
proof (induction es arbitrary: s)
  case Nil
  then show ?case by (simp add: delete_all_def)
next
  case (Cons e es)
  have "delete_all (e # es) s = delete_all es (DBSession_delete e s)"
    by (simp add: delete_all_def)
  then show ?case using Cons.IH [of "DBSession_delete e s"]
    by (auto simp: DBSession_delete_def intro: filter_cong)
qed

lemma get_evaluations_pair:
  "e \<in> set (evaluations s) \<Longrightarrow> e_user e = u \<Longrightarrow> e_contribution e = c
     \<Longrightarrow> e \<in> set (get_evaluations s (Some c) (Some u) None)"
  by (simp add: get_evaluations_def Let_def)

lemma replaced_evaluations:
  "evaluations (snd (replaced s u c v))
     = filter (\<lambda>e. e_id e \<notin> e_id ` set (get_evaluations s (Some c) (Some u) None)) (evaluations s)
       @ [fst (replaced s u c v)]"
  by (simp add: replaced_def new_Evaluation_def Let_def delete_all_evaluations)

lemma replaced_fields:
  "e_user (fst (replaced s u c v)) = u" "e_contribution (fst (replaced s u c v)) = c"
  "e_value (fst (replaced s u c v)) = v"
  by (simp_all add: replaced_def new_Evaluation_def Let_def)

lemma replaced_no_pair:
  assumes "e \<in> set (filter (\<lambda>e. e_id e \<notin> e_id ` set (get_evaluations s (Some c) (Some u) None))
              (evaluations s))"
  shows "\<not> (e_user e = u \<and> e_contribution e = c)"
  using assms get_evaluations_pair [of e s u c] by auto

lemma create_evaluation_cases:
  assumes "create_evaluation self s u c v = (r, s')"
  shows "(s' = s \<and> isl r)
       \<or> (same_tables (snd (replaced s u c v)) s' \<and> (isl r \<or> r = Inr (fst (replaced s u c v))))"
  using assms
  unfolding create_evaluation_def replaced_def [symmetric] Let_def
  by (auto split: sum.splits if_splits prod.splits option.splits
      dest!: reward_evaluator_with_tokens_tables pay_evaluation_fee_tables
             reward_previous_evaluators_tables reward_contributor_tables
      intro: same_tables_trans)

lemma create_evaluation_pairs:
  assumes "one_evaluation_per_pair s"
  shows "one_evaluation_per_pair (snd (create_evaluation self s u c v))"
proof -
  obtain r s' where rs: "create_evaluation self s u c v = (r, s')"
    by (cases "create_evaluation self s u c v")
  let ?kept = "filter (\<lambda>e. e_id e \<notin> e_id ` set (get_evaluations s (Some c) (Some u) None))
                 (evaluations s)"
  let ?pair = "\<lambda>e. (e_user e, e_contribution e)"
  have d: "distinct (map ?pair (evaluations s))"
    using assms by (simp add: one_evaluation_per_pair_def)
  have "distinct (map ?pair ?kept)"
    using d by (rule distinct_map_filter)
  moreover have "(u, c) \<notin> set (map ?pair ?kept)"
    using replaced_no_pair [of _ s c u] by auto
  ultimately have "distinct (map ?pair (evaluations (snd (replaced s u c v))))"
    by (simp add: replaced_evaluations replaced_fields)
  then have "one_evaluation_per_pair (snd (replaced s u c v))"
    by (simp add: one_evaluation_per_pair_def)
  moreover have "s' = s \<or> evaluations s' = evaluations (snd (replaced s u c v))"
    using create_evaluation_cases [OF rs] by (auto simp: same_tables_def)
  ultimately show ?thesis using assms rs by (auto simp: one_evaluation_per_pair_def)
qed

lemma evaluation_events_pairs:
  "one_evaluation_per_pair s \<Longrightarrow> one_evaluation_per_pair (evaluation_events self s calls)"
proof (induction calls arbitrary: s)
  case Nil
  then show ?case by simp
next
  case (Cons call calls)
  obtain u c v where call: "call = (u, c, v)" by (cases call)
  show ?case
    using Cons.IH [OF create_evaluation_pairs [OF Cons.prems, of self u c v]] call by simp
qed

text \<open>
  Claim C2. When \<open>create_evaluation\<close> returns, the only evaluation of the pair of the
  user and the contribution is the new one, it carries the given value, and the table is
  the old one without the rows the lookup of the pair returned (which include every
  previous evaluation of the pair) followed by the new row. Hence a table with at most
  one evaluation per pair keeps that property over any sequence of evaluation events,
  whether they return or raise.
\<close>

theorem one_active_evaluation_per_pair:
  "(create_evaluation self s u c v = (Inr ev, s') \<longrightarrow>
      filter (\<lambda>e. e_user e = u \<and> e_contribution e = c) (evaluations s') = [ev]
      \<and> e_value ev = v
      \<and> evaluations s' =
          filter (\<lambda>e. e_id e \<notin> e_id ` set (get_evaluations s (Some c) (Some u) None)) (evaluations s)
          @ [ev]
      \<and> (\<forall>e\<in>set (evaluations s). e_user e = u \<and> e_contribution e = c \<longrightarrow>
            e \<in> set (get_evaluations s (Some c) (Some u) None)))
   \<and> (one_evaluation_per_pair s \<longrightarrow> one_evaluation_per_pair (evaluation_events self s calls))"
proof (intro conjI impI)
  assume rs: "create_evaluation self s u c v = (Inr ev, s')"
  let ?kept = "filter (\<lambda>e. e_id e \<notin> e_id ` set (get_evaluations s (Some c) (Some u) None))
                 (evaluations s)"
  have ev: "ev = fst (replaced s u c v)" and "same_tables (snd (replaced s u c v)) s'"
    using create_evaluation_cases [OF rs] by auto
  then have evs: "evaluations s' = ?kept @ [ev]"
    by (simp add: same_tables_def replaced_evaluations)
  show "evaluations s' = ?kept @ [ev]" by (fact evs)
  show "e_value ev = v" using ev by (simp add: replaced_fields)
  have "filter (\<lambda>e. e_user e = u \<and> e_contribution e = c) ?kept = []"
    using replaced_no_pair [of _ s c u] by (auto simp: filter_empty_conv)
  then show "filter (\<lambda>e. e_user e = u \<and> e_contribution e = c) (evaluations s') = [ev]"
    using ev by (simp add: evs replaced_fields)
  show "\<forall>e\<in>set (evaluations s). e_user e = u \<and> e_contribution e = c \<longrightarrow>
            e \<in> set (get_evaluations s (Some c) (Some u) None)"
    using get_evaluations_pair by blast
next
  assume "one_evaluation_per_pair s"
  then show "one_evaluation_per_pair (evaluation_events self s calls)"
    by (rule evaluation_events_pairs)
qed

lemma revote:
  "create_evaluation BaseContract voted_store 2 1 1 =
     (Inr \<lparr> e_id = 1, e_user = 2, e_contribution = 1, e_value = 1 \<rparr>,
      voted_store\<lparr> evaluations := [\<lparr> e_id = 1, e_user = 2, e_contribution = 1, e_value = 1 \<rparr>],
        user_row := (user_row voted_store)
          (2 := \<lparr> tokens = 50, reputation = 99 / 10, referrer = None \<rparr>),
        contribution_row := (contribution_row voted_store)
          (1 := \<lparr> c_user = 1, contribution_type = ''base'', token_fund = 1,
                   max_score = 33 / 133, c_time = 0 \<rparr>) \<rparr>)"
  by (simp add: eval_defs voted_store_def example_store_def py_pow_quarter)

theorem one_active_evaluation_per_pair_witness:
  "(\<exists>ev s'. create_evaluation BaseContract voted_store 2 1 1 = (Inr ev, s')
       \<and> evaluations voted_store = [\<lparr> e_id = 1, e_user = 2, e_contribution = 1, e_value = 0 \<rparr>]
       \<and> evaluations s' = [ev] \<and> e_value ev = 1)
   \<and> one_evaluation_per_pair voted_store
   \<and> one_evaluation_per_pair
       (evaluation_events BaseContract voted_store [(2, 1, 1), (3, 1, 0), (2, 1, 0), (3, 1, 7)])"
proof -
  have inv: "one_evaluation_per_pair voted_store"
    by (simp add: one_evaluation_per_pair_def voted_store_def)
  obtain ev s' where rs: "create_evaluation BaseContract voted_store 2 1 1 = (Inr ev, s')"
    using revote by blast
  have old: "evaluations voted_store = [\<lparr> e_id = 1, e_user = 2, e_contribution = 1, e_value = 0 \<rparr>]"
    by (simp add: voted_store_def)
  have del: "get_evaluations voted_store (Some 1) (Some 2) None
               = [\<lparr> e_id = 1, e_user = 2, e_contribution = 1, e_value = 0 \<rparr>]"
    by (simp add: get_evaluations_def voted_store_def)
  have "evaluations s' = [ev] \<and> e_value ev = 1"
    using one_active_evaluation_per_pair [of BaseContract voted_store 2 1 1 ev s' "[]"] rs
    by (simp add: old del)
  moreover have "one_evaluation_per_pair
       (evaluation_events BaseContract voted_store [(2, 1, 1), (3, 1, 0), (2, 1, 0), (3, 1, 7)])"
    using one_active_evaluation_per_pair
      [of BaseContract voted_store 2 1 1 ev s' "[(2, 1, 1), (3, 1, 0), (2, 1, 0), (3, 1, 7)]"] inv
    by blast
  ultimately show ?thesis using rs old inv by blast
qed

subsection \<open>The evaluation fee\<close>

lemma engaged_reputation_cong:
  "evaluations s' = evaluations s \<Longrightarrow> (\<forall>x. rep_of s' x = rep_of s x)
     \<Longrightarrow> engaged_reputation s' c = engaged_reputation s c"
  by (simp add: engaged_reputation_def contribution_evaluations_def cong: map_cong)

lemma total_reputation_cong:
  "user_ids s' = user_ids s \<Longrightarrow> (\<forall>x. rep_of s' x = rep_of s x)
     \<Longrightarrow> total_reputation s' = total_reputation s"
  by (simp add: total_reputation_def cong: map_cong)

lemma reward_evaluator_with_tokens_reputation:
  "reward_evaluator_with_tokens self s e = Inr s' \<Longrightarrow> rep_of s' x = rep_of s x"
  by (auto simp: reward_evaluator_with_tokens_def Let_def split: option.splits if_splits)

lemma replaced_rows:
  "user_row (snd (replaced s u c v)) = user_row s"
  "user_ids (snd (replaced s u c v)) = user_ids s"
  "contribution_row (snd (replaced s u c v)) = contribution_row s"
  "contribution_ids (snd (replaced s u c v)) = contribution_ids s"
  "now (snd (replaced s u c v)) = now s"
proof -
  have "user_row (delete_all es s) = user_row s \<and> user_ids (delete_all es s) = user_ids s
      \<and> contribution_row (delete_all es s) = contribution_row s
      \<and> contribution_ids (delete_all es s) = contribution_ids s
      \<and> now (delete_all es s) = now s" for es
    unfolding delete_all_def
    by (induction es arbitrary: s) (simp_all add: DBSession_delete_def)
  then show "user_row (snd (replaced s u c v)) = user_row s"
    "user_ids (snd (replaced s u c v)) = user_ids s"
    "contribution_row (snd (replaced s u c v)) = contribution_row s"
    "contribution_ids (snd (replaced s u c v)) = contribution_ids s"
    "now (snd (replaced s u c v)) = now s"
    by (simp_all add: replaced_def new_Evaluation_def Let_def)
qed

text \<open>The steps of a call that returns.\<close>

lemma create_evaluation_steps:
  assumes "create_evaluation self s u c v = (Inr ev, s')"
  obtains s3 s4 s5 where
    "ev = fst (replaced s u c v)"
    "s3 = snd (replaced s u c v)
       \<or> reward_evaluator_with_tokens self (snd (replaced s u c v)) ev = Inr s3"
    "pay_evaluation_fee self s3 ev = Inr s4"
    "reward_previous_evaluators self s4 ev = (None, s5)"
    "reward_contributor self s5 ev = Inr s'"
  using assms
  unfolding create_evaluation_def replaced_def [symmetric] Let_def
  by (auto split: sum.splits if_splits prod.splits option.splits)

lemma pay_evaluation_fee_result:
  assumes "pay_evaluation_fee self s e = Inr s'"
  obtains cfg total p where
    "map_of (CONTRIBUTION_TYPE self) (contribution_type (contribution_row s (e_contribution e))) = Some cfg"
    "total_reputation s = Some total" "total \<noteq> 0"
    "py_pow (engaged_reputation s (e_contribution e) / total) (BETA self) = Inr p"
    "s' = set_reputation (e_user e)
            (rep_of s (e_user e) - stake cfg * (rep_of s (e_user e) * (1 - p))) s"
  using assms
  by (auto simp: pay_evaluation_fee_def py_div_def Let_def split: sum.splits option.splits if_splits)

lemma py_pow_half:
  assumes "py_pow x (1 / 2) = Inr p"
  shows "0 \<le> x \<and> p = sqrt x"
proof -
  have "\<lfloor>1 / 2 :: real\<rfloor> = 0" by simp
  then have "(1 / 2 :: real) \<noteq> of_int \<lfloor>1 / 2 :: real\<rfloor>" by simp
  then show ?thesis using assms
    by (auto simp: py_pow_def powr_half_sqrt split: if_splits)
qed


text \<open>
  Claim C6. Whenever \<open>create_evaluation\<close> returns, first vote or not, its fee step ran
  on a store with the reputations of the call's start, and it lowered the evaluator's
  reputation by \<open>stake * r * (1 - (engagedRep / totalRep) ** BETA)\<close>, all other
  reputations staying as they were: \<open>r\<close> is the evaluator's reputation, \<open>engagedRep\<close>
  the engaged reputation of the contribution once the new evaluation (which is among the
  contribution's evaluations) is inserted, \<open>totalRep\<close> the sum of all reputations. With
  \<open>BETA = 1 / 2\<close> the power is the square root.
\<close>

theorem evaluation_fee:
  "create_evaluation self s u c v = (Inr ev, s') \<longrightarrow>
    (\<exists>cfg total p s3 s4 s5.
        map_of (CONTRIBUTION_TYPE self) (contribution_type (contribution_row s c)) = Some cfg
      \<and> total_reputation s = Some total \<and> total \<noteq> 0
      \<and> ev \<in> set (contribution_evaluations (snd (replaced s u c v)) c) \<and> e_user ev = u
      \<and> py_pow (engaged_reputation (snd (replaced s u c v)) c / total) (BETA self) = Inr p
      \<and> (BETA self = 1 / 2 \<longrightarrow> p = sqrt (engaged_reputation (snd (replaced s u c v)) c / total))
      \<and> (\<forall>x. rep_of s3 x = rep_of s x)
      \<and> pay_evaluation_fee self s3 ev = Inr s4
      \<and> rep_of s4 u = rep_of s u - stake cfg * rep_of s u * (1 - p)
      \<and> (\<forall>x. x \<noteq> u \<longrightarrow> rep_of s4 x = rep_of s x)
      \<and> reward_previous_evaluators self s4 ev = (None, s5)
      \<and> reward_contributor self s5 ev = Inr s')"
proof
  assume rs: "create_evaluation self s u c v = (Inr ev, s')"
  let ?s2 = "snd (replaced s u c v)"
  from rs obtain s3 s4 s5 where
    ev: "ev = fst (replaced s u c v)" and
    s3: "s3 = ?s2 \<or> reward_evaluator_with_tokens self ?s2 ev = Inr s3" and
    s4: "pay_evaluation_fee self s3 ev = Inr s4" and
    s5: "reward_previous_evaluators self s4 ev = (None, s5)" and
    s6: "reward_contributor self s5 ev = Inr s'"
    by (rule create_evaluation_steps)
  have fields: "e_user ev = u" "e_contribution ev = c"
    using ev by (simp_all add: replaced_fields)
  have tab: "same_tables ?s2 s3"
    using s3 reward_evaluator_with_tokens_tables by auto
  have rep3: "rep_of s3 x = rep_of s x" for x
    using s3 reward_evaluator_with_tokens_reputation [of self ?s2 ev s3 x]
    by (auto simp: replaced_rows)
  have rep32: "\<forall>x. rep_of s3 x = rep_of ?s2 x"
    using rep3 by (simp add: replaced_rows)
  have eng: "engaged_reputation s3 c = engaged_reputation ?s2 c"
    using tab rep32 by (intro engaged_reputation_cong) (simp_all add: same_tables_def)
  have tot: "total_reputation s3 = total_reputation s"
    using tab rep3 total_reputation_cong [of s3 s] by (simp add: same_tables_def replaced_rows)
  have ctype: "contribution_type (contribution_row s3 c) = contribution_type (contribution_row s c)"
    using tab by (simp add: same_tables_def replaced_rows)
  from s4 obtain cfg total p where
    cfg: "map_of (CONTRIBUTION_TYPE self) (contribution_type (contribution_row s3 (e_contribution ev)))
            = Some cfg" and
    total: "total_reputation s3 = Some total" "total \<noteq> 0" and
    p: "py_pow (engaged_reputation s3 (e_contribution ev) / total) (BETA self) = Inr p" and
    s4_eq: "s4 = set_reputation (e_user ev)
              (rep_of s3 (e_user ev) - stake cfg * (rep_of s3 (e_user ev) * (1 - p))) s3"
    by (rule pay_evaluation_fee_result)
  have mem: "ev \<in> set (contribution_evaluations ?s2 c)"
    using ev fields by (simp add: contribution_evaluations_def replaced_evaluations)
  have half: "BETA self = 1 / 2 \<longrightarrow> p = sqrt (engaged_reputation ?s2 c / total)"
  proof
    assume "BETA self = 1 / 2"
    then have "py_pow (engaged_reputation ?s2 c / total) (1 / 2) = Inr p"
      using p by (simp only: fields eng)
    then show "p = sqrt (engaged_reputation ?s2 c / total)"
      using py_pow_half by blast
  qed
  have r4: "rep_of s4 u = rep_of s u - stake cfg * rep_of s u * (1 - p)"
    by (simp add: s4_eq fields rep3)
  have r4': "\<forall>x. x \<noteq> u \<longrightarrow> rep_of s4 x = rep_of s x"
    by (simp add: s4_eq fields rep3)
  show "\<exists>cfg total p s3 s4 s5.
        map_of (CONTRIBUTION_TYPE self) (contribution_type (contribution_row s c)) = Some cfg
      \<and> total_reputation s = Some total \<and> total \<noteq> 0
      \<and> ev \<in> set (contribution_evaluations (snd (replaced s u c v)) c) \<and> e_user ev = u
      \<and> py_pow (engaged_reputation (snd (replaced s u c v)) c / total) (BETA self) = Inr p
      \<and> (BETA self = 1 / 2 \<longrightarrow> p = sqrt (engaged_reputation (snd (replaced s u c v)) c / total))
      \<and> (\<forall>x. rep_of s3 x = rep_of s x)
      \<and> pay_evaluation_fee self s3 ev = Inr s4
      \<and> rep_of s4 u = rep_of s u - stake cfg * rep_of s u * (1 - p)
      \<and> (\<forall>x. x \<noteq> u \<longrightarrow> rep_of s4 x = rep_of s x)
      \<and> reward_previous_evaluators self s4 ev = (None, s5)
      \<and> reward_contributor self s5 ev = Inr s'"
    apply (rule exI [of _ cfg], rule exI [of _ total], rule exI [of _ p])
    apply (rule exI [of _ s3], rule exI [of _ s4], rule exI [of _ s5])
    using cfg total p half rep3 s4 r4 r4' s5 s6 mem fields
    by (simp add: ctype tot eng)
qed

theorem evaluation_fee_witness:
  "\<exists>ev s' s4. create_evaluation BaseContract voted_store 2 1 1 = (Inr ev, s')
      \<and> get_evaluations voted_store (Some 1) (Some 2) None \<noteq> []
      \<and> rep_of voted_store 2 = 10
      \<and> rep_of s4 2 = 10 - 2 / 100 * 10 * (1 - sqrt (10 / 40))
      \<and> rep_of s4 1 = 20 \<and> rep_of s4 3 = 10"
proof -
  obtain ev s' where rs: "create_evaluation BaseContract voted_store 2 1 1 = (Inr ev, s')"
    using revote by blast
  have facts: "total_reputation voted_store = Some 40"
    "engaged_reputation (snd (replaced voted_store 2 1 1)) 1 = 10"
    "map_of (CONTRIBUTION_TYPE BaseContract) (contribution_type (contribution_row voted_store 1))
       = Some base_config"
    "BETA BaseContract = 1 / 2" "stake base_config = 2 / 100"
    "rep_of voted_store 1 = 20" "rep_of voted_store 2 = 10" "rep_of voted_store 3 = 10"
    "get_evaluations voted_store (Some 1) (Some 2) None \<noteq> []"
    by (simp_all add: eval_defs replaced_def voted_store_def example_store_def base_config_def)
  from evaluation_fee [of BaseContract voted_store 2 1 1 ev s'] rs
  obtain cfg total p s4 where
    "map_of (CONTRIBUTION_TYPE BaseContract) (contribution_type (contribution_row voted_store 1))
       = Some cfg"
    "total_reputation voted_store = Some total"
    "BETA BaseContract = 1 / 2 \<longrightarrow>
       p = sqrt (engaged_reputation (snd (replaced voted_store 2 1 1)) 1 / total)"
    "rep_of s4 2 = rep_of voted_store 2 - stake cfg * rep_of voted_store 2 * (1 - p)"
    "\<forall>x. x \<noteq> 2 \<longrightarrow> rep_of s4 x = rep_of voted_store x"
    by blast
  then have "rep_of s4 2 = 10 - 2 / 100 * 10 * (1 - sqrt (10 / 40))
      \<and> rep_of s4 1 = 20 \<and> rep_of s4 3 = 10"
    using facts by auto
  then show ?thesis using rs facts by blast
qed

subsection \<open>The high-water mark of the score\<close>

lemma skewed_upvote:
  "create_evaluation BaseContract skewed_store 2 1 1
     = (Inr \<lparr> e_id = 1, e_user = 2, e_contribution = 1, e_value = 1 \<rparr>, skewed_upvoted)"
  by (simp add: eval_defs skewed_store_def skewed_upvoted_def py_pow_quarter)

lemma skewed_downvote:
  "create_evaluation BaseContract skewed_upvoted 3 1 0
     = (Inr \<lparr> e_id = 2, e_user = 3, e_contribution = 1, e_value = 0 \<rparr>, skewed_downvoted)"
  by (simp add: eval_defs skewed_store_def skewed_upvoted_def skewed_downvoted_def py_pow_quarter)

text \<open>
  Claim C4, as stated, fails for a downvote. After user 2 has voted 1, the downvote of
  user 3 costs user 3 a fee, so the total reputation shrinks and the upvote ratio of the
  contribution, 13200/53199, exceeds the stored \<open>max_score\<close> 33/133 when
  \<open>reward_contributor\<close> is reached; it returns at once for the value 0 and
  \<open>max_score\<close> stays 33/133.
\<close>

theorem max_score_downvote_counterexample:
  "create_evaluation BaseContract skewed_store 2 1 1
     = (Inr \<lparr> e_id = 1, e_user = 2, e_contribution = 1, e_value = 1 \<rparr>, skewed_upvoted)
   \<and> create_evaluation BaseContract skewed_upvoted 3 1 0
     = (Inr \<lparr> e_id = 2, e_user = 3, e_contribution = 1, e_value = 0 \<rparr>, skewed_downvoted)
   \<and> reward_contributor BaseContract skewed_downvoted
        \<lparr> e_id = 2, e_user = 3, e_contribution = 1, e_value = 0 \<rparr> = Inr skewed_downvoted
   \<and> contribution_upvotes skewed_downvoted 1 = Inr (13200 / 53199)
   \<and> max_score (contribution_row skewed_upvoted 1) = 33 / 133
   \<and> max_score (contribution_row skewed_downvoted 1) = 33 / 133
   \<and> (33 / 133 :: real) < 13200 / 53199"
  using skewed_upvote skewed_downvote
  by (simp add: reward_contributor_def contribution_upvotes_def contribution_evaluations_def
      total_reputation_def py_div_def skewed_downvoted_def skewed_upvoted_def skewed_store_def)


lemma reward_evaluator_with_tokens_max_score:
  "reward_evaluator_with_tokens self s e = Inr s'
     \<Longrightarrow> max_score (contribution_row s' x) = max_score (contribution_row s x)"
  by (auto simp: reward_evaluator_with_tokens_def Let_def split: option.splits if_splits)

lemma pay_evaluation_fee_contributions:
  "pay_evaluation_fee self s e = Inr s' \<Longrightarrow> contribution_row s' = contribution_row s"
  by (auto simp: pay_evaluation_fee_def Let_def split: sum.splits option.splits)

lemma reward_one_contributions:
  "reward_one self sd bf ev e s = Inr s' \<Longrightarrow> contribution_row s' = contribution_row s"
  by (auto simp: reward_one_def Let_def split: option.splits if_splits)

lemma reward_loop_contributions:
  "reward_loop self sd bf ev es s = (r, s') \<Longrightarrow> contribution_row s' = contribution_row s"
  by (induction es arbitrary: s) (auto split: sum.splits dest!: reward_one_contributions)

lemma reward_previous_evaluators_contributions:
  "reward_previous_evaluators self s e = (r, s') \<Longrightarrow> contribution_row s' = contribution_row s"
  by (auto simp: reward_previous_evaluators_def Let_def split: sum.splits if_splits
      dest: reward_loop_contributions)

lemma pay_contributor_contributions:
  "contribution_row (pay_contributor self cfg u b s) = contribution_row s"
  by (simp add: pay_contributor_def Let_def split: option.splits)

text \<open>What \<open>reward_contributor\<close> does to the high-water marks.\<close>

lemma reward_contributor_max_score:
  assumes "reward_contributor self s e = Inr s'"
  shows "(\<forall>x. x \<noteq> e_contribution e \<longrightarrow>
            max_score (contribution_row s' x) = max_score (contribution_row s x))
       \<and> (e_value e = 0 \<longrightarrow> s' = s)
       \<and> (e_value e \<noteq> 0 \<longrightarrow>
            (\<exists>score. contribution_upvotes s (e_contribution e) = Inr score
               \<and> max_score (contribution_row s' (e_contribution e))
                   = max score (max_score (contribution_row s (e_contribution e)))))"
  using assms
  by (auto simp: reward_contributor_def Let_def pay_contributor_contributions
      split: sum.splits if_splits option.splits)

lemma reward_contributor_mono:
  assumes "reward_contributor self s e = Inr s'"
  shows "max_score (contribution_row s x) \<le> max_score (contribution_row s' x)"
proof (cases "x = e_contribution e")
  case False
  then show ?thesis using reward_contributor_max_score [OF assms] by simp
next
  case True
  show ?thesis
  proof (cases "e_value e = 0")
    case True
    then show ?thesis using reward_contributor_max_score [OF assms] by simp
  next
    case False
    then obtain score where
      "max_score (contribution_row s' (e_contribution e))
         = max score (max_score (contribution_row s (e_contribution e)))"
      using reward_contributor_max_score [OF assms] by blast
    then show ?thesis using \<open>x = e_contribution e\<close> by simp
  qed
qed

lemma create_evaluation_max_score:
  assumes "create_evaluation self s u c v = (r, s')"
  shows "max_score (contribution_row s x) \<le> max_score (contribution_row s' x)"
proof -
  have "max_score (contribution_row (snd (replaced s u c v)) x) = max_score (contribution_row s x)"
    by (simp add: replaced_rows)
  then show ?thesis
    using assms
    unfolding create_evaluation_def replaced_def [symmetric] Let_def
    by (auto split: sum.splits if_splits prod.splits option.splits
        dest!: reward_evaluator_with_tokens_max_score [where x = x]
               pay_evaluation_fee_contributions reward_previous_evaluators_contributions
               reward_contributor_mono [where x = x])
qed

lemma evaluation_events_max_score:
  "max_score (contribution_row s x) \<le> max_score (contribution_row (evaluation_events self s calls) x)"
proof (induction calls arbitrary: s)
  case Nil
  then show ?case by simp
next
  case (Cons call calls)
  obtain u c v where call: "call = (u, c, v)" by (cases call)
  have "max_score (contribution_row s x)
          \<le> max_score (contribution_row (snd (create_evaluation self s u c v)) x)"
    using create_evaluation_max_score [of self s u c v] by (cases "create_evaluation self s u c v") auto
  also have "\<dots> \<le> max_score (contribution_row
      (evaluation_events self (snd (create_evaluation self s u c v)) calls) x)"
    by (rule Cons.IH)
  finally show ?case using call by simp
qed


text \<open>
  Claim C4, amended. \<open>max_score\<close> of every contribution is non-decreasing over any
  sequence of evaluation events. In an event that returns, the steps before
  \<open>reward_contributor\<close> leave \<open>max_score\<close> as it was; for a value other than 0,
  \<open>max_score\<close> becomes the larger of its old value and the upvote ratio read at that
  point, whether or not a reward is paid; for the value 0, \<open>reward_contributor\<close> changes
  nothing.
\<close>

theorem max_score_high_water_mark:
  "max_score (contribution_row s x)
     \<le> max_score (contribution_row (evaluation_events self s calls) x)
   \<and> (create_evaluation self s u c v = (Inr ev, s') \<longrightarrow>
        (\<exists>s4 s5. reward_previous_evaluators self s4 ev = (None, s5)
            \<and> reward_contributor self s5 ev = Inr s'
            \<and> max_score (contribution_row s5 c) = max_score (contribution_row s c)
            \<and> (v \<noteq> 0 \<longrightarrow>
                 (\<exists>score. contribution_upvotes s5 c = Inr score
                    \<and> max_score (contribution_row s' c)
                        = max score (max_score (contribution_row s c))))
            \<and> (v = 0 \<longrightarrow> s' = s5)))"
proof (intro conjI impI)
  show "max_score (contribution_row s x)
          \<le> max_score (contribution_row (evaluation_events self s calls) x)"
    by (rule evaluation_events_max_score)
next
  assume rs: "create_evaluation self s u c v = (Inr ev, s')"
  let ?s2 = "snd (replaced s u c v)"
  from rs obtain s3 s4 s5 where
    ev: "ev = fst (replaced s u c v)" and
    s3: "s3 = ?s2 \<or> reward_evaluator_with_tokens self ?s2 ev = Inr s3" and
    s4: "pay_evaluation_fee self s3 ev = Inr s4" and
    s5: "reward_previous_evaluators self s4 ev = (None, s5)" and
    s6: "reward_contributor self s5 ev = Inr s'"
    by (rule create_evaluation_steps)
  have fields: "e_value ev = v" "e_contribution ev = c"
    using ev by (simp_all add: replaced_fields)
  have "max_score (contribution_row s3 c) = max_score (contribution_row s c)"
    using s3 reward_evaluator_with_tokens_max_score [of self ?s2 ev s3 c]
    by (auto simp: replaced_rows)
  then have m5: "max_score (contribution_row s5 c) = max_score (contribution_row s c)"
    using pay_evaluation_fee_contributions [OF s4] reward_previous_evaluators_contributions [OF s5]
    by simp
  have "(v \<noteq> 0 \<longrightarrow>
          (\<exists>score. contribution_upvotes s5 c = Inr score
             \<and> max_score (contribution_row s' c) = max score (max_score (contribution_row s c))))
      \<and> (v = 0 \<longrightarrow> s' = s5)"
    using reward_contributor_max_score [OF s6] m5 by (simp add: fields)
  then show "\<exists>s4 s5. reward_previous_evaluators self s4 ev = (None, s5)
            \<and> reward_contributor self s5 ev = Inr s'
            \<and> max_score (contribution_row s5 c) = max_score (contribution_row s c)
            \<and> (v \<noteq> 0 \<longrightarrow>
                 (\<exists>score. contribution_upvotes s5 c = Inr score
                    \<and> max_score (contribution_row s' c)
                        = max score (max_score (contribution_row s c))))
            \<and> (v = 0 \<longrightarrow> s' = s5)"
    using s5 s6 m5 by blast
qed

theorem max_score_high_water_mark_witness:
  "max_score (contribution_row skewed_store 1)
     \<le> max_score (contribution_row
          (evaluation_events BaseContract skewed_store [(2, 1, 1), (3, 1, 0)]) 1)
   \<and> (\<exists>ev s' s5 score. create_evaluation BaseContract skewed_store 2 1 1 = (Inr ev, s')
         \<and> contribution_upvotes s5 1 = Inr score
         \<and> max_score (contribution_row skewed_store 1) = 0
         \<and> max_score (contribution_row s' 1) = max score 0
         \<and> max_score (contribution_row s' 1) = 33 / 133)"
proof -
  have m: "max_score (contribution_row skewed_store 1) = 0"
    "max_score (contribution_row skewed_upvoted 1) = 33 / 133"
    by (simp_all add: skewed_store_def skewed_upvoted_def)
  obtain s5 score where "contribution_upvotes s5 1 = Inr score"
    "max_score (contribution_row skewed_upvoted 1)
       = max score (max_score (contribution_row skewed_store 1))"
    using max_score_high_water_mark [of skewed_store 1 BaseContract "[]" 2 1 1
        "\<lparr> e_id = 1, e_user = 2, e_contribution = 1, e_value = 1 \<rparr>" skewed_upvoted]
      skewed_upvote
    by auto
  then have "\<exists>ev s' s5 score. create_evaluation BaseContract skewed_store 2 1 1 = (Inr ev, s')
         \<and> contribution_upvotes s5 1 = Inr score
         \<and> max_score (contribution_row skewed_store 1) = 0
         \<and> max_score (contribution_row s' 1) = max score 0
         \<and> max_score (contribution_row s' 1) = 33 / 133"
    using skewed_upvote m by metis
  moreover have "max_score (contribution_row skewed_store 1)
     \<le> max_score (contribution_row
          (evaluation_events BaseContract skewed_store [(2, 1, 1), (3, 1, 0)]) 1)"
    using max_score_high_water_mark [of skewed_store 1 BaseContract "[(2, 1, 1), (3, 1, 0)]"]
    by blast
  ultimately show ?thesis by blast
qed

subsection \<open>Listing contributions by score\<close>

lemma contribution_score_defined:
  assumes "total_reputation s \<noteq> None" "total_reputation s \<noteq> Some 0"
    "(now s - c_time (contribution_row s c)) div 86400000000 \<noteq> - 30"
  shows "contribution_score s c = Inr (score_of s c)"
proof -
  obtain t where t: "total_reputation s = Some t" "t \<noteq> 0" using assms by auto
  have "real_of_int (30 + (now s - c_time (contribution_row s c)) div 86400000000) \<noteq> 0"
    using assms(3) by linarith
  then show ?thesis
    using t by (simp add: score_of_def contribution_score_def contribution_upvotes_def py_div_def Let_def)
qed

lemma sort_keys_defined:
  assumes "total_reputation s \<noteq> None" "total_reputation s \<noteq> Some 0"
    "list_all (\<lambda>c. (now s - c_time (contribution_row s c)) div 86400000000 \<noteq> - 30) cs"
  shows "sort_keys s cs = Inr (map (\<lambda>c. (score_of s c, c)) cs)"
  using assms(3)
  by (induction cs) (simp_all add: contribution_score_defined [OF assms(1,2)])

lemma sorted_descending:
  "sorted_wrt (\<lambda>a b. score_of s b \<le> score_of s a)
     (map snd (sort_key (\<lambda>p. - fst p) (map (\<lambda>c. (score_of s c, c)) cs)))"
proof -
  let ?ks = "sort_key (\<lambda>p. - fst p) (map (\<lambda>c. (score_of s c, c)) cs)"
  have "sorted (map (\<lambda>p. - fst p) ?ks)" by (rule sorted_sort_key)
  then have "sorted_wrt (\<lambda>p q. fst q \<le> fst p) ?ks"
    by (simp add: sorted_map)
  moreover have "\<forall>p\<in>set ?ks. fst p = score_of s (snd p)" by auto
  ultimately have "sorted_wrt (\<lambda>p q. score_of s (snd q) \<le> score_of s (snd p)) ?ks"
    by (auto elim!: sorted_wrt_mono_rel [rotated])
  then show ?thesis by (simp add: sorted_wrt_map)
qed

lemma two_contributions_scores:
  "contribution_score two_contributions_store 1 = Inr 0"
  "contribution_score two_contributions_store 2 = Inr (1 / 4)"
  by (simp_all add: contribution_score_def contribution_upvotes_def contribution_evaluations_def
      total_reputation_def py_div_def two_contributions_store_def example_store_def Let_def)

lemma contribution_score_undefined:
  assumes "total_reputation s = None \<or> total_reputation s = Some 0
           \<or> (now s - c_time (contribution_row s c)) div 86400000000 = - 30"
  shows "isl (contribution_score s c)"
proof (cases "total_reputation s = None \<or> total_reputation s = Some 0")
  case True
  then show ?thesis
    by (auto simp: contribution_score_def contribution_upvotes_def py_div_def)
next
  case False
  then obtain t where t: "total_reputation s = Some t" "t \<noteq> 0" by auto
  have "(now s - c_time (contribution_row s c)) div 86400000000 = - 30"
    using assms False by blast
  then show ?thesis
    using t by (simp add: contribution_score_def contribution_upvotes_def py_div_def Let_def)
qed

lemma sort_keys_undefined:
  "c \<in> set cs \<Longrightarrow> isl (contribution_score s c) \<Longrightarrow> isl (sort_keys s cs)"
  by (induction cs) (auto split: sum.splits)

lemma sort_keys_raises:
  assumes "\<not> scores_defined s" "contribution_ids s \<noteq> []"
  shows "isl (sort_keys s (contribution_ids s))"
proof (cases "total_reputation s = None \<or> total_reputation s = Some 0")
  case True
  obtain c where c: "c \<in> set (contribution_ids s)"
    using assms(2) by (cases "contribution_ids s") auto
  have "isl (contribution_score s c)" using True contribution_score_undefined by blast
  then show ?thesis using c sort_keys_undefined by blast
next
  case False
  then have "\<not> list_all (\<lambda>c. (now s - c_time (contribution_row s c)) div 86400000000 \<noteq> - 30)
               (contribution_ids s)"
    using assms(1) by (simp add: scores_defined_def)
  then obtain c where c: "c \<in> set (contribution_ids s)"
    "(now s - c_time (contribution_row s c)) div 86400000000 = - 30"
    by (auto simp: list_all_iff)
  have "isl (contribution_score s c)" using c(2) contribution_score_undefined by blast
  then show ?thesis using c(1) sort_keys_undefined by blast
qed

text \<open>
  Claim C7, amended. On a store where every score can be computed (the total reputation
  is not zero and no contribution is dated thirty days ahead), \<open>get_contributions\<close>
  with \<open>order_by = '-score'\<close> returns a permutation of the stored contributions in
  descending order of \<open>contribution_score\<close>, without its first \<open>start\<close> elements
  (for a negative \<open>start\<close>: its last \<open>-start\<close> elements), cut to \<open>limit\<close>
  elements when \<open>limit\<close> is positive (for a negative \<open>limit\<close>: without its last
  \<open>-limit\<close> elements) and not cut when \<open>limit\<close> is \<open>None\<close> or 0. On any
  other store with a contribution it raises. With an \<open>order_by\<close> other than
  \<open>score\<close>, \<open>-score\<close>, \<open>time\<close> and \<open>-time\<close> it raises a ValueError; the
  query writes nothing, it only reads the store.
\<close>

theorem get_contributions_sorted:
  "(scores_defined s \<longrightarrow>
      (\<exists>full. mset full = mset (contribution_ids s)
         \<and> sorted_wrt (\<lambda>a b. score_of s b \<le> score_of s a) full
         \<and> list_all (\<lambda>c. contribution_score s c = Inr (score_of s c)) full
         \<and> get_contributions s start limit contributor_id ''-score''
             = Inr (let rest = (if 0 \<le> start then drop (nat start) full
                                else drop (length full - nat (- start)) full)
                    in case limit of
                         None \<Rightarrow> rest
                       | Some l \<Rightarrow>
                           if l = 0 then rest
                           else if 0 < l then take (nat l) rest
                           else take (length rest - nat (- l)) rest)))
   \<and> (\<not> scores_defined s \<and> contribution_ids s \<noteq> [] \<longrightarrow>
        isl (get_contributions s start limit contributor_id ''-score''))
   \<and> (order_by \<notin> {''score'', ''-score'', ''time'', ''-time''} \<longrightarrow>
        get_contributions s start limit contributor_id order_by
          = Inl (ValueError ''Unknown order_by value''))"
proof (intro conjI impI)
  assume d: "scores_defined s"
  let ?full = "map snd (sort_key (\<lambda>p. - fst p) (map (\<lambda>c. (score_of s c, c)) (contribution_ids s)))"
  have keys: "sort_keys s (contribution_ids s) = Inr (map (\<lambda>c. (score_of s c, c)) (contribution_ids s))"
    using d by (intro sort_keys_defined) (simp_all add: scores_defined_def)
  have 1: "get_contributions s start limit contributor_id ''-score''
             = Inr (let rest = (if 0 \<le> start then drop (nat start) ?full
                                else drop (length ?full - nat (- start)) ?full)
                    in case limit of
                         None \<Rightarrow> rest
                       | Some l \<Rightarrow>
                           if l = 0 then rest
                           else if 0 < l then take (nat l) rest
                           else take (length rest - nat (- l)) rest)"
    by (cases limit) (auto simp: get_contributions_def keys Let_def slice_from_def slice_to_def)
  have "mset ?full = image_mset snd (mset (map (\<lambda>c. (score_of s c, c)) (contribution_ids s)))"
    by (simp only: mset_map mset_sort)
  then have 2: "mset ?full = mset (contribution_ids s)"
    by (simp add: image_mset.compositionality comp_def)
  have "set ?full = set (contribution_ids s)" using 2 by (metis set_mset_mset)
  then have 4: "list_all (\<lambda>c. contribution_score s c = Inr (score_of s c)) ?full"
    using d contribution_score_defined [of s]
    by (auto simp: scores_defined_def list_all_iff)
  show "\<exists>full. mset full = mset (contribution_ids s)
         \<and> sorted_wrt (\<lambda>a b. score_of s b \<le> score_of s a) full
         \<and> list_all (\<lambda>c. contribution_score s c = Inr (score_of s c)) full
         \<and> get_contributions s start limit contributor_id ''-score''
             = Inr (let rest = (if 0 \<le> start then drop (nat start) full
                                else drop (length full - nat (- start)) full)
                    in case limit of
                         None \<Rightarrow> rest
                       | Some l \<Rightarrow>
                           if l = 0 then rest
                           else if 0 < l then take (nat l) rest
                           else take (length rest - nat (- l)) rest)"
    using 1 2 4 sorted_descending [of s "contribution_ids s"] by blast
next
  assume "\<not> scores_defined s \<and> contribution_ids s \<noteq> []"
  then have "isl (sort_keys s (contribution_ids s))" using sort_keys_raises by blast
  then show "isl (get_contributions s start limit contributor_id ''-score'')"
    by (auto simp: get_contributions_def split: sum.splits)
next
  assume "order_by \<notin> {''score'', ''-score'', ''time'', ''-time''}"
  then show "get_contributions s start limit contributor_id order_by
          = Inl (ValueError ''Unknown order_by value'')"
    by (simp add: get_contributions_def)
qed

text \<open>
  Claim C7, as stated, fails twice. A user created with reputation 0 can pay for a
  contribution; the total reputation is then 0 and the listing by \<open>-score\<close> raises
  ZeroDivisionError instead of returning. And the limit 0 is falsy: the listing of the two
  contributions comes back whole, where the slice \<^verbatim>\<open>results[:0]\<close> is empty.
\<close>

theorem get_contributions_counterexample:
  "fst (create_user BaseContract empty_store None (Some 0) None None) = Inr 1
   \<and> fst (create_contribution BaseContract
            (snd (create_user BaseContract empty_store None (Some 0) None None)) 1 (Some ''base''))
       = Inr 1
   \<and> get_contributions
        (snd (create_contribution BaseContract
            (snd (create_user BaseContract empty_store None (Some 0) None None)) 1 (Some ''base'')))
        0 None None ''-score'' = Inl ZeroDivisionError
   \<and> contribution_ids two_contributions_store = [1, 2]
   \<and> get_contributions two_contributions_store 0 (Some 0) None ''-score'' = Inr [2, 1]
   \<and> take 0 [2, 1 :: int] = []"
proof -
  have ids: "contribution_ids two_contributions_store = [1, 2]"
    by (simp add: two_contributions_store_def)
  have "get_contributions two_contributions_store 0 (Some 0) None ''-score'' = Inr [2, 1]"
    by (simp add: get_contributions_def two_contributions_scores slice_from_def ids)
  moreover note ids
  moreover have "fst (create_user BaseContract empty_store None (Some 0) None None) = Inr 1
   \<and> fst (create_contribution BaseContract
            (snd (create_user BaseContract empty_store None (Some 0) None None)) 1 (Some ''base''))
       = Inr 1
   \<and> get_contributions
        (snd (create_contribution BaseContract
            (snd (create_user BaseContract empty_store None (Some 0) None None)) 1 (Some ''base'')))
        0 None None ''-score'' = Inl ZeroDivisionError"
    by (simp add: create_user_def create_contribution_def new_User_def new_Contribution_def
        new_id_def empty_store_def BaseContract_def set_tokens_def get_contributions_def
        contribution_score_def contribution_upvotes_def contribution_evaluations_def
        total_reputation_def py_div_def Let_def)
  ultimately show ?thesis by simp
qed


theorem get_contributions_sorted_witness:
  "scores_defined two_contributions_store
   \<and> contribution_ids two_contributions_store = [1, 2]
   \<and> score_of two_contributions_store 1 = 0
   \<and> score_of two_contributions_store 2 = 1 / 4
   \<and> get_contributions two_contributions_store 0 None None ''-score'' = Inr [2, 1]
   \<and> get_contributions two_contributions_store 0 (Some 1) None ''-score'' = Inr [2]
   \<and> get_contributions two_contributions_store 1 (Some 5) None ''-score'' = Inr [1]
   \<and> get_contributions two_contributions_store (- 1) None None ''-score'' = Inr [1]
   \<and> get_contributions two_contributions_store 0 (Some (- 1)) None ''-score'' = Inr [2]
   \<and> \<not> scores_defined empty_store
   \<and> get_contributions two_contributions_store 0 None None ''bogus''
       = Inl (ValueError ''Unknown order_by value'')"
proof -
  have d: "scores_defined two_contributions_store"
    by (simp add: scores_defined_def total_reputation_def two_contributions_store_def
        example_store_def)
  have nd: "\<not> scores_defined empty_store"
    by (simp add: scores_defined_def total_reputation_def empty_store_def)
  have ids: "contribution_ids two_contributions_store = [1, 2]"
    by (simp add: two_contributions_store_def)
  have sc: "score_of two_contributions_store 1 = 0" "score_of two_contributions_store 2 = 1 / 4"
    by (simp_all add: score_of_def two_contributions_scores)
  have bogus: "get_contributions two_contributions_store 0 None None ''bogus''
       = Inl (ValueError ''Unknown order_by value'')"
    using get_contributions_sorted [of two_contributions_store 0 None None "''bogus''"]
    by simp
  obtain full where full: "mset full = mset (contribution_ids two_contributions_store)"
    "sorted_wrt (\<lambda>a b. score_of two_contributions_store b \<le> score_of two_contributions_store a) full"
    "get_contributions two_contributions_store 0 (Some 1) None ''-score''
       = Inr (take (nat 1) (drop (nat 0) full))"
    using get_contributions_sorted [of two_contributions_store 0 "Some 1" None "''bogus''"] d
    by auto
  have "set full = {1, 2}" "length full = 2"
    using full(1) ids by (metis list.simps(15) empty_set set_mset_mset insert_commute,
        metis length_Cons list.size(3) mset_eq_length numeral_2_eq_2)
  then obtain a b where ab: "full = [a, b]"
    by (cases full; cases "tl full") auto
  have "full = [2, 1]"
  proof (rule ccontr)
    assume "full \<noteq> [2, 1]"
    then have "full = [1, 2]" using \<open>set full = {1, 2}\<close> ab
      by (auto simp: doubleton_eq_iff)
    then show False using full(2) sc by simp
  qed
  then have 1: "get_contributions two_contributions_store 0 (Some 1) None ''-score'' = Inr [2]"
    using full(3) by simp
  have 2: "get_contributions two_contributions_store 0 None None ''-score'' = Inr [2, 1]"
    "get_contributions two_contributions_store 1 (Some 5) None ''-score'' = Inr [1]"
    "get_contributions two_contributions_store (- 1) None None ''-score'' = Inr [1]"
    "get_contributions two_contributions_store 0 (Some (- 1)) None ''-score'' = Inr [2]"
    by (simp_all add: get_contributions_def two_contributions_scores ids slice_from_def
        slice_to_def)
  show ?thesis using d nd ids sc bogus 1 2 by simp
qed

subsection \<open>Rewards of the previous evaluators\<close>












subsection \<open>A downvote and the creator of the contribution\<close>













end
